theory Spec2Isabelle
  imports Complex_Main "HOL-Library.Word"
begin

section \<open>Data model\<close>

text \<open>
  The class \<open>PhysicsEngine\<close> wraps the PhysX SDK. The SDK is a black box: the value
  each of its entry points returns during one operation is given by a record of type
  \<open>sdk\<close>, and every call made to it is appended to a trace, next to the lines written
  to \<open>std::cout\<close>. Pointers are \<open>nat option\<close>, \<open>None\<close> being \<open>nullptr\<close>.
  \<open>size_t\<close> is a 64-bit word, \<open>uint32_t\<close> a 32-bit word and \<open>sizeof(float)\<close> is 4.
  A \<open>float\<close> is an IEEE 754 binary32 value and a \<open>double\<close> a binary64 value: every
  operation rounds its exact result to the nearest value of its format, ties to even,
  and no two operations are fused (subsection \<open>Floating point\<close>). Undefined
  behaviour of the C++ (a null
  dereference, an access outside a vector, a float that does not fit the integer it is
  converted to) is a value of type \<open>fault\<close>.
\<close>

type_synonym size_t = "64 word"
type_synonym uint32_t = "32 word"
type_synonym ptr = "nat option"

subsection \<open>Floating point\<close>

text \<open>
  A floating-point value is a finite real number, an infinity or a NaN. A finite value
  of a format is a real that the rounding of the format leaves where it is. The sign
  of a zero is not kept: a quotient by zero takes the sign of its numerator.
\<close>

datatype fp = Finite real | PosInf | NegInf | NaN

type_synonym float = fp
type_synonym double = fp

text \<open>The binade of a positive real \<open>x\<close>: the integer \<open>e\<close> with
  \<open>2^e \<le> x < 2^(e+1)\<close>.\<close>

function binade :: "real \<Rightarrow> int" where
  "binade x =
    (if x \<le> 0 then 0
     else if 2 \<le> x then binade (x / 2) + 1
     else if x < 1 then binade (2 * x) - 1
     else 0)"
  by pat_completeness auto
termination
proof (relation "measure (\<lambda>x. 2 * nat \<lceil>1 / x\<rceil> + nat \<lfloor>x\<rfloor>)")
  show "wf (measure (\<lambda>x :: real. 2 * nat \<lceil>1 / x\<rceil> + nat \<lfloor>x\<rfloor>))"
    by simp
next
  fix x :: real
  assume "\<not> x \<le> 0" and big: "2 \<le> x"
  have c1: "\<lceil>1 / x\<rceil> = 1"
    using big by (simp add: ceiling_eq_iff)
  have c2: "\<lceil>1 / (x / 2)\<rceil> = 1"
    using big by (simp add: ceiling_eq_iff)
  have "\<lfloor>x / 2\<rfloor> < \<lfloor>x\<rfloor>"
    using big by (simp add: floor_less_iff) linarith
  moreover have "0 \<le> \<lfloor>x / 2\<rfloor>"
    using big by simp
  ultimately show "(x / 2, x) \<in> measure (\<lambda>x. 2 * nat \<lceil>1 / x\<rceil> + nat \<lfloor>x\<rfloor>)"
    using c1 c2 big by simp
next
  fix x :: real
  assume pos: "\<not> x \<le> 0" and "\<not> 2 \<le> x" and small: "x < 1"
  have f0: "\<lfloor>x\<rfloor> = 0"
    using pos small by (simp add: floor_eq_iff)
  have f1: "\<lfloor>2 * x\<rfloor> \<le> 1"
    using small by (simp add: floor_le_iff)
  have f2: "0 \<le> \<lfloor>2 * x\<rfloor>"
    using pos by simp
  have big: "1 < 1 / x"
    using pos small by simp
  then have "2 \<le> \<lceil>1 / x\<rceil>"
    by linarith
  have "1 / (2 * x) = (1 / x) / 2"
    by simp
  have "1 / (2 * x) \<le> of_int \<lceil>1 / x\<rceil> / 2"
    using pos by (simp add: field_simps)
  then have "\<lceil>1 / (2 * x)\<rceil> \<le> \<lceil>of_int \<lceil>1 / x\<rceil> / (2 :: real)\<rceil>"
    by (rule ceiling_mono)
  also have "\<dots> \<le> \<lceil>1 / x\<rceil> - 1"
  proof (rule ceiling_le)
    have "real_of_int 2 \<le> real_of_int \<lceil>1 / x\<rceil>"
      using \<open>2 \<le> \<lceil>1 / x\<rceil>\<close> by (simp only: of_int_le_iff)
    then show "real_of_int \<lceil>1 / x\<rceil> / 2 \<le> real_of_int (\<lceil>1 / x\<rceil> - 1)"
      by simp
  qed
  finally have c: "\<lceil>1 / (2 * x)\<rceil> \<le> \<lceil>1 / x\<rceil> - 1" .
  have "0 < \<lceil>1 / (2 * x)\<rceil>"
    using pos by simp
  with c f0 f1 f2 \<open>2 \<le> \<lceil>1 / x\<rceil>\<close>
  show "(2 * x, x) \<in> measure (\<lambda>x. 2 * nat \<lceil>1 / x\<rceil> + nat \<lfloor>x\<rfloor>)"
    by simp linarith
qed

declare binade.simps [simp del]

text \<open>The integer nearest to \<open>y\<close>, the even one of the two when \<open>y\<close> lies halfway.\<close>

definition round_half_even :: "real \<Rightarrow> int" where
  "round_half_even y =
    (let n = \<lfloor>y\<rfloor> in
     if y - of_int n < 1 / 2 then n
     else if 1 / 2 < y - of_int n then n + 1
     else if even n then n else n + 1)"

text \<open>
  Rounding to a binary format of precision \<open>p\<close> with exponents from \<open>emin\<close> to
  \<open>emax\<close>: to the nearest multiple of the unit in the last place of the binade of \<open>x\<close>
  (of the smallest binade below the normal range), and to an infinity when that is
  beyond the largest finite value.
\<close>

definition fp_round :: "nat \<Rightarrow> int \<Rightarrow> int \<Rightarrow> real \<Rightarrow> fp" where
  "fp_round p emin emax x =
    (if x = 0 then Finite 0
     else
      let e = max (binade \<bar>x\<bar>) emin;
          q = 2 powi (e - int p + 1);
          r = of_int (round_half_even (x / q)) * q
      in if (2 ^ p - 1) * 2 powi (emax - int p + 1) < \<bar>r\<bar>
         then (if 0 < x then PosInf else NegInf)
         else Finite r)"

text \<open>The arithmetic of IEEE 754 on these values; \<open>rnd\<close> is the rounding of the
  format the operation is done in.\<close>

fun fp_neg :: "fp \<Rightarrow> fp" where
  "fp_neg (Finite x) = Finite (- x)"
| "fp_neg PosInf = NegInf"
| "fp_neg NegInf = PosInf"
| "fp_neg NaN = NaN"

fun fp_add :: "(real \<Rightarrow> fp) \<Rightarrow> fp \<Rightarrow> fp \<Rightarrow> fp" where
  "fp_add rnd (Finite x) (Finite y) = rnd (x + y)"
| "fp_add rnd NaN b = NaN"
| "fp_add rnd a NaN = NaN"
| "fp_add rnd PosInf NegInf = NaN"
| "fp_add rnd NegInf PosInf = NaN"
| "fp_add rnd PosInf b = PosInf"
| "fp_add rnd NegInf b = NegInf"
| "fp_add rnd a b = b"

definition fp_sub :: "(real \<Rightarrow> fp) \<Rightarrow> fp \<Rightarrow> fp \<Rightarrow> fp" where
  "fp_sub rnd a b = fp_add rnd a (fp_neg b)"

fun fp_mul :: "(real \<Rightarrow> fp) \<Rightarrow> fp \<Rightarrow> fp \<Rightarrow> fp" where
  "fp_mul rnd (Finite x) (Finite y) = rnd (x * y)"
| "fp_mul rnd NaN b = NaN"
| "fp_mul rnd a NaN = NaN"
| "fp_mul rnd (Finite x) b = (if x = 0 then NaN else if 0 < x then b else fp_neg b)"
| "fp_mul rnd a (Finite y) = (if y = 0 then NaN else if 0 < y then a else fp_neg a)"
| "fp_mul rnd PosInf b = b"
| "fp_mul rnd NegInf b = fp_neg b"

fun fp_div :: "(real \<Rightarrow> fp) \<Rightarrow> fp \<Rightarrow> fp \<Rightarrow> fp" where
  "fp_div rnd (Finite x) (Finite y) =
    (if y = 0 then (if x = 0 then NaN else if 0 < x then PosInf else NegInf)
     else rnd (x / y))"
| "fp_div rnd NaN b = NaN"
| "fp_div rnd a NaN = NaN"
| "fp_div rnd (Finite x) b = Finite 0"
| "fp_div rnd a (Finite y) = (if 0 \<le> y then a else fp_neg a)"
| "fp_div rnd a b = NaN"

fun fp_ge :: "fp \<Rightarrow> fp \<Rightarrow> bool" where
  "fp_ge (Finite x) (Finite y) = (y \<le> x)"
| "fp_ge NaN b = False"
| "fp_ge a NaN = False"
| "fp_ge PosInf b = True"
| "fp_ge a NegInf = True"
| "fp_ge a b = False"

text \<open>The conversion to another format.\<close>

fun fp_convert :: "(real \<Rightarrow> fp) \<Rightarrow> fp \<Rightarrow> fp" where
  "fp_convert rnd (Finite x) = rnd x"
| "fp_convert rnd a = a"

definition round32 :: "real \<Rightarrow> fp" where
  "round32 = fp_round 24 (- 126) 127"

definition round64 :: "real \<Rightarrow> fp" where
  "round64 = fp_round 53 (- 1022) 1023"

subsection \<open>Records of the SDK and the engine\<close>

datatype PxVec3 = PxVec3 (vec_x: float) (vec_y: float) (vec_z: float)

datatype PxQuat = PxQuat float float float float

datatype fault = NullDereference | OutOfBoundsAccess | FloatToIntOverflow

record PxHeightFieldSample =
  height :: "16 word"
  materialIndex0 :: "8 word"
  materialIndex1 :: "8 word"

record PxCapsuleControllerDesc =
  desc_height :: float
  desc_radius :: float
  desc_position :: PxVec3
  contactOffset :: float
  stepOffset :: float
  material :: ptr

text \<open>The values the SDK returns to one operation of the engine.\<close>

record sdk =
  PxCreateFoundation :: ptr
  PxCreatePvd :: ptr
  PxDefaultPvdSocketTransportCreate :: ptr
  connect :: bool
  PxCreatePhysics :: ptr
  PxCreateCooking :: ptr
  PxDefaultCpuDispatcherCreate :: ptr
  createScene :: ptr
  PxCreateControllerManager :: ptr
  getScenePvdClient :: ptr
  createMaterial :: ptr
  createTriangleMesh :: ptr
  cookTriangleMesh :: bool
  createHeightField :: ptr
  PxCreateStatic :: ptr
  createController :: ptr
  move :: "8 word"

text \<open>What the engine does to the outside: a line on \<open>std::cout\<close>, a call of the SDK,
  a call of the user's callback.\<close>

datatype event =
    Cout string
  | Called_PxCreateFoundation
  | Called_PxCreatePvd nat
  | Called_PxDefaultPvdSocketTransportCreate
  | Called_connect nat nat
  | Called_PxCreatePhysics nat bool ptr
  | Called_PxCreateCooking nat
  | Called_getTolerancesScale nat
  | Called_PxDefaultCpuDispatcherCreate uint32_t
  | Called_createScene nat PxVec3 ptr
  | Called_PxCreateControllerManager nat
  | Called_getScenePvdClient nat
  | Called_setScenePvdFlag nat
  | Called_createMaterial nat
  | Called_simulate nat float
  | Called_fetchResults nat bool
  | Called_getPhysicsInsertionCallback nat
  | Called_Cooker_createTriangleMesh nat uint32_t uint32_t
  | Called_cookTriangleMesh nat uint32_t uint32_t
  | Called_Physics_createTriangleMesh nat
  | Called_createHeightField nat uint32_t uint32_t "PxHeightFieldSample list"
  | Called_PxCreateStatic_TriangleMesh nat PxVec3 PxQuat ptr PxVec3 nat
  | Called_PxCreateStatic_HeightField nat PxVec3 ptr float float nat
  | Called_addActor nat nat
  | Called_createController nat PxCapsuleControllerDesc
  | Called_move nat PxVec3 float
  | Called_Callback float

text \<open>
  The members of the class, followed by three components that are not members: the
  function-local static \<open>start_time\<close> of \<open>SimulateFixedFrequency\<close> (\<open>None\<close> until its
  first call initialises it), the number of times the clock has been read, and the trace.
\<close>

record PhysicsEngine =
  Foundation :: ptr
  PVD :: ptr
  Physics :: ptr
  Cooker :: ptr
  GlobalScene :: ptr
  Dispatcher :: ptr
  DefaultMaterial :: ptr
  CharacterManager :: ptr
  TriangleMeshes :: "ptr list"
  Characters :: "ptr list"
  Gravity :: PxVec3
  ElapsedTime :: float
  start_time :: "int option"
  clock_reads :: nat
  trace :: "event list"

definition emit :: "event \<Rightarrow> PhysicsEngine \<Rightarrow> PhysicsEngine" where
  "emit e s = s\<lparr>trace := trace s @ [e]\<rparr>"

text \<open>The calls that reach the cooker.\<close>

fun is_cooker_call :: "event \<Rightarrow> bool" where
  "is_cooker_call (Called_Cooker_createTriangleMesh c n m) = True"
| "is_cooker_call (Called_cookTriangleMesh c n m) = True"
| "is_cooker_call (Called_createHeightField c n m d) = True"
| "is_cooker_call e = False"

definition cooker_calls :: "event list \<Rightarrow> event list" where
  "cooker_calls tr = filter is_cooker_call tr"

text \<open>The lines written to \<open>std::cout\<close>.\<close>

fun cout_lines :: "event list \<Rightarrow> string list" where
  "cout_lines [] = []"
| "cout_lines (Cout l # tr) = l # cout_lines tr"
| "cout_lines (ev # tr) = cout_lines tr"

text \<open>The actors added to the scene.\<close>

fun added_actors :: "event list \<Rightarrow> nat list" where
  "added_actors [] = []"
| "added_actors (Called_addActor sc a # tr) = a # added_actors tr"
| "added_actors (ev # tr) = added_actors tr"

section \<open>Resource tables\<close>

text \<open>
  \<open>CreatePhysicsTriangleMesh\<close> (the template of the header): \<open>'v\<close> is \<open>VertexT\<close>,
  \<open>'i\<close> is \<open>IndexT\<close>. The counts of the mesh descriptor are 32-bit fields.
\<close>

definition CreatePhysicsTriangleMesh ::
  "sdk \<Rightarrow> 'v list \<Rightarrow> 'i list \<Rightarrow> PhysicsEngine \<Rightarrow> fault + size_t \<times> PhysicsEngine" where
  "CreatePhysicsTriangleMesh k VertexList IndexList s =
    (if length IndexList mod 3 \<noteq> 0
     then Inr (- 1, emit (Cout ''The index count must be a multiple of 3'') s)
     else
      (case Cooker s of None \<Rightarrow> Inl NullDereference | Some ck \<Rightarrow>
      (case Physics s of None \<Rightarrow> Inl NullDereference | Some ph \<Rightarrow>
        let points_count = of_nat (length VertexList);
            triangles_count = of_nat (length IndexList div 3);
            s1 = emit (Called_Cooker_createTriangleMesh ck points_count triangles_count)
                   (emit (Called_getPhysicsInsertionCallback ph) s)
        in
        (case createTriangleMesh k of
           None \<Rightarrow> Inr (- 1, emit (Cout ''Failed to create the triangle mesh'') s1)
         | Some cooked_mesh \<Rightarrow>
            let s2 = emit (Called_cookTriangleMesh ck points_count triangles_count) s1 in
            if \<not> cookTriangleMesh k
            then Inr (- 1, emit (Cout ''Failed to cook the triangle mesh'') s2)
            else
              let s3 = emit (Called_Physics_createTriangleMesh ph) s2;
                  s4 = s3\<lparr>TriangleMeshes := TriangleMeshes s3 @ [Some cooked_mesh]\<rparr>
              in Inr (of_nat (length (TriangleMeshes s4)) - 1, s4)))))"

text \<open>
  The descriptor of \<open>CreateCharacterController\<close>. \<open>0.1\<close> and \<open>0.25\<close> are literals of
  type \<open>double\<close>, so \<open>Radius + Radius * 0.1\<close> and \<open>Height * 0.25\<close> are computed in
  \<open>double\<close> from the converted floats, and the results are narrowed to the \<open>float\<close>
  fields. The position is a vector of doubles.
\<close>

definition controller_desc :: "PxVec3 \<Rightarrow> float \<Rightarrow> float \<Rightarrow> ptr \<Rightarrow> PxCapsuleControllerDesc" where
  "controller_desc StartPosition Height Radius mat =
    \<lparr>desc_height = Height,
     desc_radius = Radius,
     desc_position = PxVec3 (fp_convert round64 (vec_x StartPosition))
                       (fp_convert round64 (vec_y StartPosition))
                       (fp_convert round64 (vec_z StartPosition)),
     contactOffset =
       fp_convert round32
         (fp_add round64 (fp_convert round64 Radius)
            (fp_mul round64 (fp_convert round64 Radius) (round64 (1 / 10)))),
     stepOffset =
       fp_convert round32 (fp_mul round64 (fp_convert round64 Height) (round64 (1 / 4))),
     material = mat\<rparr>"

definition CreateCharacterController ::
  "sdk \<Rightarrow> PxVec3 \<Rightarrow> float \<Rightarrow> float \<Rightarrow> PhysicsEngine \<Rightarrow> fault + size_t \<times> PhysicsEngine" where
  "CreateCharacterController k StartPosition Height Radius s =
    (let desc = controller_desc StartPosition Height Radius (DefaultMaterial s) in
     case CharacterManager s of None \<Rightarrow> Inl NullDereference | Some mgr \<Rightarrow>
       let s1 = emit (Called_createController mgr desc) s in
       (case createController k of
          None \<Rightarrow> Inr (- 1, emit (Cout ''Failed to create the character controller'') s1)
        | Some controller \<Rightarrow>
            let s2 = s1\<lparr>Characters := Characters s1 @ [Some controller]\<rparr>
            in Inr (of_nat (length (Characters s2)) - 1, s2)))"

text \<open>The decimal digits that \<open>operator<<\<close> prints for an unsigned integer.\<close>

fun show_nat :: "nat \<Rightarrow> string" where
  "show_nat n =
    (if n < 10 then [char_of (48 + n)]
     else show_nat (n div 10) @ [char_of (48 + n mod 10)])"

declare show_nat.simps [simp del]

text \<open>
  \<open>GetCharacter\<close>. \<open>ID\<close> is a \<open>size_t\<close>, so \<open>ID < 0\<close> compares two unsigned
  words. \<open>Characters[ID]\<close> outside the vector is undefined behaviour.
\<close>

definition GetCharacter :: "size_t \<Rightarrow> PhysicsEngine \<Rightarrow> fault + ptr \<times> PhysicsEngine" where
  "GetCharacter ID s =
    (if ID < 0 \<and> length (Characters s) \<le> unat ID
     then Inr (None,
            emit (Cout (''Invalid character ID ['' @ show_nat (unat ID)
                        @ ''] provided to GetCharacter'')) s)
     else if unat ID < length (Characters s) then Inr (Characters s ! unat ID, s)
     else Inl OutOfBoundsAccess)"

definition vec_add :: "PxVec3 \<Rightarrow> PxVec3 \<Rightarrow> PxVec3" where
  "vec_add a b =
    PxVec3 (fp_add round32 (vec_x a) (vec_x b)) (fp_add round32 (vec_y a) (vec_y b))
      (fp_add round32 (vec_z a) (vec_z b))"

definition MoveCharacter ::
  "sdk \<Rightarrow> size_t \<Rightarrow> PxVec3 \<Rightarrow> float \<Rightarrow> bool \<Rightarrow> PhysicsEngine \<Rightarrow> fault + 8 word \<times> PhysicsEngine" where
  "MoveCharacter k ID Disp ElapsedTime' ApplyGravity s =
    (case GetCharacter ID s of Inl f \<Rightarrow> Inl f | Inr (char_ptr, s1) \<Rightarrow>
       let Disp' = (if ApplyGravity then vec_add Disp (Gravity s1) else Disp) in
       (case char_ptr of None \<Rightarrow> Inl NullDereference
        | Some c \<Rightarrow> Inr (move k, emit (Called_move c Disp' ElapsedTime') s1)))"

section \<open>Engine facade\<close>

text \<open>
  \<open>Initialize\<close>. The macro \<open>_DEBUG\<close> is the parameter \<open>debug\<close>. The two helper
  definitions are the two \<open>#ifdef _DEBUG\<close> blocks.
\<close>

definition Initialize_debugger :: "bool \<Rightarrow> sdk \<Rightarrow> nat \<Rightarrow> PhysicsEngine \<Rightarrow> fault + PhysicsEngine" where
  "Initialize_debugger debug k fnd s =
    (if \<not> debug then Inr s
     else
      let s1 = (emit (Called_PxCreatePvd fnd) s)\<lparr>PVD := PxCreatePvd k\<rparr>;
          s2 = emit Called_PxDefaultPvdSocketTransportCreate s1
      in
      (case PVD s2 of None \<Rightarrow> Inl NullDereference | Some pvd \<Rightarrow>
      (case PxDefaultPvdSocketTransportCreate k of None \<Rightarrow> Inl NullDereference
       | Some transport \<Rightarrow>
         let s3 = emit (Called_connect pvd transport) s2 in
         if \<not> connect k
         then Inr (emit (Cout ''[Warning] Could not connect to the visual debugger. Maybe it's not open?'') s3)
         else Inr s3)))"

definition Initialize_scene_debugger :: "bool \<Rightarrow> sdk \<Rightarrow> nat \<Rightarrow> PhysicsEngine \<Rightarrow> PhysicsEngine" where
  "Initialize_scene_debugger debug k sc s =
    (if \<not> debug then s
     else
      let s1 = emit (Called_getScenePvdClient sc) s in
      (case getScenePvdClient k of None \<Rightarrow> s1
       | Some pvd_client \<Rightarrow>
           emit (Called_setScenePvdFlag pvd_client)
             (emit (Called_setScenePvdFlag pvd_client)
               (emit (Called_setScenePvdFlag pvd_client) s1))))"

definition Initialize ::
  "bool \<Rightarrow> sdk \<Rightarrow> uint32_t \<Rightarrow> PxVec3 \<Rightarrow> PhysicsEngine \<Rightarrow> fault + bool \<times> PhysicsEngine" where
  "Initialize debug k NumThreads Gravity' s =
    (let s1 = (emit Called_PxCreateFoundation (s\<lparr>Gravity := Gravity'\<rparr>))
                \<lparr>Foundation := PxCreateFoundation k\<rparr>
     in
     case Foundation s1 of
       None \<Rightarrow> Inr (False, emit (Cout ''Failed to create the PhysX foundation instance'') s1)
     | Some fnd \<Rightarrow>
     (case Initialize_debugger debug k fnd s1 of Inl f \<Rightarrow> Inl f | Inr s2 \<Rightarrow>
       let s3 = (emit (Called_PxCreatePhysics fnd debug (PVD s2)) s2)
                  \<lparr>Physics := PxCreatePhysics k\<rparr>
       in
       (case Physics s3 of
          None \<Rightarrow> Inr (False, emit (Cout ''Failed to create the PhysX physics instance'') s3)
        | Some ph \<Rightarrow>
          let s4 = (emit (Called_PxCreateCooking fnd) s3)\<lparr>Cooker := PxCreateCooking k\<rparr> in
          (case Cooker s4 of
             None \<Rightarrow> Inr (False, emit (Cout ''Failed to create the PhysX cooker instance'') s4)
           | Some ck \<Rightarrow>
             let s5 = (emit (Called_PxDefaultCpuDispatcherCreate NumThreads)
                         (emit (Called_getTolerancesScale ph) s4))
                        \<lparr>Dispatcher := PxDefaultCpuDispatcherCreate k\<rparr>;
                 s6 = (emit (Called_createScene ph Gravity' (Dispatcher s5)) s5)
                        \<lparr>GlobalScene := createScene k\<rparr>
             in
             (case GlobalScene s6 of None \<Rightarrow> Inl NullDereference | Some sc \<Rightarrow>
                let s7 = (emit (Called_PxCreateControllerManager sc) s6)
                           \<lparr>CharacterManager := PxCreateControllerManager k\<rparr>;
                    s8 = Initialize_scene_debugger debug k sc s7;
                    s9 = (emit (Called_createMaterial ph) s8)
                           \<lparr>DefaultMaterial := createMaterial k\<rparr>
                in Inr (True, s9))))))"

definition Simulate :: "float \<Rightarrow> PhysicsEngine \<Rightarrow> fault + PhysicsEngine" where
  "Simulate ElapsedTimeSeconds s =
    (case GlobalScene s of None \<Rightarrow> Inl NullDereference
     | Some sc \<Rightarrow>
         Inr (emit (Called_fetchResults sc True) (emit (Called_simulate sc ElapsedTimeSeconds) s)))"

text \<open>
  \<open>CreateStaticActor\<close>. As in \<open>GetCharacter\<close>, \<open>MeshID < 0\<close> compares unsigned words,
  and \<open>TriangleMeshes[MeshID]\<close> outside the vector is undefined behaviour.
\<close>

definition CreateStaticActor ::
  "sdk \<Rightarrow> size_t \<Rightarrow> PxVec3 \<Rightarrow> PxQuat \<Rightarrow> PxVec3 \<Rightarrow> PhysicsEngine \<Rightarrow> fault + bool \<times> PhysicsEngine" where
  "CreateStaticActor k MeshID Position Rotation Scale s =
    (if MeshID < 0 \<and> length (TriangleMeshes s) \<le> unat MeshID
     then Inr (False,
            emit (Cout (''Invalid mesh id ['' @ show_nat (unat MeshID)
                        @ ''] provided to CreateStaticActor'')) s)
     else if \<not> unat MeshID < length (TriangleMeshes s) then Inl OutOfBoundsAccess
     else
      (case Physics s of None \<Rightarrow> Inl NullDereference | Some ph \<Rightarrow>
      (case DefaultMaterial s of None \<Rightarrow> Inl NullDereference | Some mat \<Rightarrow>
        let s1 = emit (Called_PxCreateStatic_TriangleMesh ph Position Rotation
                         (TriangleMeshes s ! unat MeshID) Scale mat) s
        in
        (case PxCreateStatic k of
           None \<Rightarrow> Inr (False, emit (Cout ''Failed to create the static actor'') s1)
         | Some actor \<Rightarrow>
           (case GlobalScene s1 of None \<Rightarrow> Inl NullDereference
            | Some sc \<Rightarrow> Inr (True, emit (Called_addActor sc actor) s1))))))"

text \<open>
  \<open>CreateTerrain\<close>. The height of a \<open>PxHeightFieldSample\<close> is a signed 16-bit integer
  (the descriptor's format is \<open>eS16_TM\<close>), so the assignment of a \<open>float\<close> to it drops
  the fraction, and is undefined behaviour when the result does not fit or the float is
  not finite. The value \<open>(MaxZ - MinZ) * Heightmap[in_idx] + MinZ\<close> is computed in
  \<open>float\<close>, one rounding for each operation.
\<close>

definition trunc_toward_zero :: "real \<Rightarrow> int" where
  "trunc_toward_zero r = (if 0 \<le> r then \<lfloor>r\<rfloor> else \<lceil>r\<rceil>)"

fun float_to_int16 :: "float \<Rightarrow> fault + 16 word" where
  "float_to_int16 (Finite r) =
    (let t = trunc_toward_zero r in
     if - 32768 \<le> t \<and> t \<le> 32767 then Inr (word_of_int t) else Inl FloatToIntOverflow)"
| "float_to_int16 a = Inl FloatToIntOverflow"

text \<open>
  The two loops of \<open>CreateTerrain\<close>. \<open>out_idx\<close> is computed in 32 bits; in \<open>in_idx\<close>
  the product \<open>x * sizeof(float)\<close> is a \<open>size_t\<close>, the product \<open>y * SizeX\<close> is 32 bits
  wide, and their sum is cut to 32 bits.
\<close>

function CreateTerrain_x_loop ::
  "uint32_t \<Rightarrow> uint32_t \<Rightarrow> uint32_t \<Rightarrow> uint32_t \<Rightarrow> float \<Rightarrow> float \<Rightarrow> float list
     \<Rightarrow> PxHeightFieldSample list \<Rightarrow> fault + PxHeightFieldSample list" where
  "CreateTerrain_x_loop x y SizeX SizeY MinZ MaxZ Heightmap px_data =
    (if x < SizeX then
       (let nbRows = SizeY;
            out_idx = y + x * nbRows;
            in_idx = (ucast ((ucast x :: size_t) * 4 + ucast (y * SizeX)) :: uint32_t)
        in
        if \<not> unat in_idx < length Heightmap then Inl OutOfBoundsAccess
        else if \<not> unat out_idx < length px_data then Inl OutOfBoundsAccess
        else
          (case float_to_int16
                  (fp_add round32
                     (fp_mul round32 (fp_sub round32 MaxZ MinZ) (Heightmap ! unat in_idx)) MinZ) of
             Inl f \<Rightarrow> Inl f
           | Inr h \<Rightarrow>
               CreateTerrain_x_loop (x + 1) y SizeX SizeY MinZ MaxZ Heightmap
                 (px_data[unat out_idx :=
                    (px_data ! unat out_idx)
                      \<lparr>height := h, materialIndex0 := 0, materialIndex1 := 0\<rparr>])))
     else Inr px_data)"
  by pat_completeness auto
termination
proof (relation "measure (\<lambda>(x, y, SizeX, r). unat SizeX - unat x)")
  show "wf (measure (\<lambda>(x :: uint32_t, y :: uint32_t, SizeX :: uint32_t,
              r :: uint32_t \<times> float \<times> float \<times> float list \<times> PxHeightFieldSample list).
            unat SizeX - unat x))"
    by simp
next
  fix x y SizeX SizeY :: uint32_t
  fix MinZ MaxZ :: float and Heightmap :: "float list" and px_data :: "PxHeightFieldSample list"
  fix xa xb xc xd
  assume less: "x < SizeX"
  have "x + 1 \<noteq> 0"
    using less by (metis add.commute neg_eq_iff_add_eq_0 word_order.extremum_strict)
  then have "unat (x + 1) = Suc (unat x)"
    by (simp add: add.commute unatSuc)
  moreover have "unat x < unat SizeX"
    using less by (simp add: word_less_nat_alt)
  ultimately show
    "((x + 1, y, SizeX, SizeY, MinZ, MaxZ, Heightmap,
       px_data[unat xb := (px_data ! unat xb)\<lparr>height := xd, materialIndex0 := 0, materialIndex1 := 0\<rparr>]),
      (x, y, SizeX, SizeY, MinZ, MaxZ, Heightmap, px_data))
     \<in> measure (\<lambda>(x, y, SizeX, r). unat SizeX - unat x)"
    by simp
qed

function CreateTerrain_y_loop ::
  "uint32_t \<Rightarrow> uint32_t \<Rightarrow> uint32_t \<Rightarrow> float \<Rightarrow> float \<Rightarrow> float list
     \<Rightarrow> PxHeightFieldSample list \<Rightarrow> fault + PxHeightFieldSample list" where
  "CreateTerrain_y_loop y SizeX SizeY MinZ MaxZ Heightmap px_data =
    (if y < SizeY then
       (case CreateTerrain_x_loop 0 y SizeX SizeY MinZ MaxZ Heightmap px_data of
          Inl f \<Rightarrow> Inl f
        | Inr px_data' \<Rightarrow> CreateTerrain_y_loop (y + 1) SizeX SizeY MinZ MaxZ Heightmap px_data')
     else Inr px_data)"
  by pat_completeness auto
termination
proof (relation "measure (\<lambda>(y, SizeX, SizeY, r). unat SizeY - unat y)")
  show "wf (measure (\<lambda>(y :: uint32_t, SizeX :: uint32_t, SizeY :: uint32_t,
              r :: float \<times> float \<times> float list \<times> PxHeightFieldSample list).
            unat SizeY - unat y))"
    by simp
next
  fix y SizeX SizeY :: uint32_t
  fix MinZ MaxZ :: float and Heightmap :: "float list"
  fix px_data px_data' :: "PxHeightFieldSample list"
  assume less: "y < SizeY"
  have "y + 1 \<noteq> 0"
    using less by (metis add.commute neg_eq_iff_add_eq_0 word_order.extremum_strict)
  then have "unat (y + 1) = Suc (unat y)"
    by (simp add: add.commute unatSuc)
  moreover have "unat y < unat SizeY"
    using less by (simp add: word_less_nat_alt)
  ultimately show
    "((y + 1, SizeX, SizeY, MinZ, MaxZ, Heightmap, px_data'),
      (y, SizeX, SizeY, MinZ, MaxZ, Heightmap, px_data))
     \<in> measure (\<lambda>(y, SizeX, SizeY, r). unat SizeY - unat y)"
    by simp
qed

declare CreateTerrain_x_loop.simps [simp del]

declare CreateTerrain_y_loop.simps [simp del]

text \<open>The sample buffer: \<open>px_data\<close> as it is when the loops are done. The vector starts
  with one zeroed sample for each entry of the height-map.\<close>

definition CreateTerrain_samples ::
  "uint32_t \<Rightarrow> uint32_t \<Rightarrow> float \<Rightarrow> float \<Rightarrow> float list \<Rightarrow> fault + PxHeightFieldSample list" where
  "CreateTerrain_samples SizeX SizeY MinZ MaxZ Heightmap =
    CreateTerrain_y_loop 0 SizeX SizeY MinZ MaxZ Heightmap
      (replicate (length Heightmap) \<lparr>height = 0, materialIndex0 = 0, materialIndex1 = 0\<rparr>)"

text \<open>\<open>CreateTerrain\<close>. The row and column scales of the geometry are quotients of
  floats; the 32-bit counts are converted to \<open>float\<close> first.\<close>

definition CreateTerrain ::
  "sdk \<Rightarrow> PxVec3 \<Rightarrow> PxVec3 \<Rightarrow> uint32_t \<Rightarrow> uint32_t \<Rightarrow> float \<Rightarrow> float \<Rightarrow> float list
     \<Rightarrow> PhysicsEngine \<Rightarrow> fault + bool \<times> PhysicsEngine" where
  "CreateTerrain k Position Scale SizeX SizeY MinZ MaxZ Heightmap s =
    (case CreateTerrain_samples SizeX SizeY MinZ MaxZ Heightmap of Inl f \<Rightarrow> Inl f
     | Inr px_data \<Rightarrow>
      (case Cooker s of None \<Rightarrow> Inl NullDereference | Some ck \<Rightarrow>
      (case Physics s of None \<Rightarrow> Inl NullDereference | Some ph \<Rightarrow>
        let s1 = emit (Called_createHeightField ck SizeX SizeY px_data)
                   (emit (Called_getPhysicsInsertionCallback ph) s);
            hf_ptr = createHeightField k
        in
        (case DefaultMaterial s1 of None \<Rightarrow> Inl NullDereference | Some mat \<Rightarrow>
          let s2 = emit (Called_PxCreateStatic_HeightField ph
                           (PxVec3 (vec_x Position) (vec_y Position) (vec_z Position)) hf_ptr
                           (fp_div round32 (vec_x Scale) (round32 (real (unat SizeX))))
                           (fp_div round32 (vec_z Scale) (round32 (real (unat SizeY)))) mat) s1
          in
          (case PxCreateStatic k of
             None \<Rightarrow> Inr (False, emit (Cout ''Failed to create the terrain actor'') s2)
           | Some actor \<Rightarrow>
             (case GlobalScene s2 of None \<Rightarrow> Inl NullDereference
              | Some sc \<Rightarrow> Inr (True, emit (Called_addActor sc actor) s2)))))))"

section \<open>Fixed-step scheduler\<close>

text \<open>
  \<open>SimulateFixedFrequency\<close>. The clock is the function \<open>now\<close>: its value at \<open>n\<close> is
  what the \<open>n\<close>-th call of \<open>high_resolution_clock::now()\<close> returns, in ticks of the
  clock, which are nanoseconds. \<open>duration_deca\<close> is
  \<open>chrono::duration<float, std::deca>(d).count()\<close> for a span of \<open>d\<close> ticks: \<open>std::deca\<close>
  is the ratio 10/1, so the conversion divides the count, as a \<open>float\<close>, by the float
  \<open>10^10\<close>, and the result counts periods of ten seconds. The callback is user code;
  the model records that it was called and with which argument.
\<close>

definition duration_deca :: "int \<Rightarrow> float" where
  "duration_deca d = fp_div round32 (round32 (of_int d)) (round32 (10 ^ 10))"

definition SimulateFixedFrequency ::
  "(nat \<Rightarrow> int) \<Rightarrow> float \<Rightarrow> bool \<Rightarrow> PhysicsEngine \<Rightarrow> fault + PhysicsEngine" where
  "SimulateFixedFrequency now Frequency Callback s =
    (let (t0, s1) =
           (case start_time s of
              None \<Rightarrow> (now (clock_reads s),
                        s\<lparr>start_time := Some (now (clock_reads s)),
                          clock_reads := Suc (clock_reads s)\<rparr>)
            | Some t \<Rightarrow> (t, s));
         step_size = fp_div round32 (Finite 1) Frequency;
         s2 = s1\<lparr>ElapsedTime := duration_deca (now (clock_reads s1) - t0),
                 clock_reads := Suc (clock_reads s1)\<rparr>
     in
     if fp_ge (ElapsedTime s2) step_size then
       let s3 = (if Callback then emit (Called_Callback (ElapsedTime s2)) s2 else s2) in
       (case Simulate (ElapsedTime s3) s3 of Inl f \<Rightarrow> Inl f
        | Inr s4 \<Rightarrow>
            Inr (s4\<lparr>start_time := Some (now (clock_reads s4)),
                     clock_reads := Suc (clock_reads s4)\<rparr>))
     else Inr s2)"

section \<open>Lifetime of an engine\<close>

text \<open>The public operations, each with what the SDK returns to it, and a run of them on
  one engine. No other code reaches the private members.\<close>

datatype ('v, 'i) operation =
    Op_Initialize sdk uint32_t PxVec3
  | Op_Simulate float
  | Op_SimulateFixedFrequency float bool
  | Op_CreatePhysicsTriangleMesh sdk "'v list" "'i list"
  | Op_CreateStaticActor sdk size_t PxVec3 PxQuat PxVec3
  | Op_CreateTerrain sdk PxVec3 PxVec3 uint32_t uint32_t float float "float list"
  | Op_CreateCharacterController sdk PxVec3 float float
  | Op_GetCharacter size_t
  | Op_MoveCharacter sdk size_t PxVec3 float bool

fun perform ::
  "bool \<Rightarrow> (nat \<Rightarrow> int) \<Rightarrow> ('v, 'i) operation \<Rightarrow> PhysicsEngine \<Rightarrow> fault + PhysicsEngine" where
  "perform debug now (Op_Initialize k NumThreads g) s = map_sum id snd (Initialize debug k NumThreads g s)"
| "perform debug now (Op_Simulate e) s = Simulate e s"
| "perform debug now (Op_SimulateFixedFrequency f cb) s = SimulateFixedFrequency now f cb s"
| "perform debug now (Op_CreatePhysicsTriangleMesh k vs is) s =
     map_sum id snd (CreatePhysicsTriangleMesh k vs is s)"
| "perform debug now (Op_CreateStaticActor k MeshID p r sc) s =
     map_sum id snd (CreateStaticActor k MeshID p r sc s)"
| "perform debug now (Op_CreateTerrain k p sc SizeX SizeY MinZ MaxZ hm) s =
     map_sum id snd (CreateTerrain k p sc SizeX SizeY MinZ MaxZ hm s)"
| "perform debug now (Op_CreateCharacterController k p h r) s =
     map_sum id snd (CreateCharacterController k p h r s)"
| "perform debug now (Op_GetCharacter ID) s = map_sum id snd (GetCharacter ID s)"
| "perform debug now (Op_MoveCharacter k ID d e g) s = map_sum id snd (MoveCharacter k ID d e g s)"

fun perform_all ::
  "bool \<Rightarrow> (nat \<Rightarrow> int) \<Rightarrow> ('v, 'i) operation list \<Rightarrow> PhysicsEngine \<Rightarrow> fault + PhysicsEngine" where
  "perform_all debug now [] s = Inr s"
| "perform_all debug now (op # ops) s =
    (case perform debug now op s of Inl f \<Rightarrow> Inl f
     | Inr s' \<Rightarrow> perform_all debug now ops s')"

section \<open>Example values\<close>

definition engine0 :: PhysicsEngine where
  "engine0 =
    \<lparr>Foundation = Some 1, PVD = None, Physics = Some 2, Cooker = Some 3,
     GlobalScene = Some 4, Dispatcher = Some 5, DefaultMaterial = Some 6,
     CharacterManager = Some 7, TriangleMeshes = [], Characters = [],
     Gravity = PxVec3 (Finite 0) (round32 (- 9.81)) (Finite 0), ElapsedTime = Finite 0,
     start_time = None, clock_reads = 0, trace = []\<rparr>"

definition sdk_ok :: sdk where
  "sdk_ok =
    \<lparr>PxCreateFoundation = Some 1, PxCreatePvd = Some 8,
     PxDefaultPvdSocketTransportCreate = Some 9, connect = True,
     PxCreatePhysics = Some 2, PxCreateCooking = Some 3,
     PxDefaultCpuDispatcherCreate = Some 5, createScene = Some 4,
     PxCreateControllerManager = Some 7, getScenePvdClient = Some 10,
     createMaterial = Some 6, createTriangleMesh = Some 11, cookTriangleMesh = True,
     createHeightField = Some 12, PxCreateStatic = Some 13, createController = Some 14,
     move = 0\<rparr>"

text \<open>
  A clock for a caller that calls the scheduler every \<open>d\<close> nanoseconds: the first call
  reads it twice at the time 0, for the initialisation of \<open>start_time\<close> and for the
  elapsed time, and every further reading is \<open>d\<close> nanoseconds after the one before.
\<close>

definition clock_every :: "int \<Rightarrow> nat \<Rightarrow> int" where
  "clock_every d n = d * int (n - 1)"

text \<open>A run of operations like the one of \<open>main\<close>, with a second controller.\<close>

definition lifetime_example :: "(PxVec3, uint32_t) operation list" where
  "lifetime_example =
    [Op_CreatePhysicsTriangleMesh sdk_ok
       [PxVec3 (Finite (- 1)) (Finite 0) (Finite (- 1)), PxVec3 (Finite (- 1)) (Finite 0) (Finite 1),
        PxVec3 (Finite 1) (Finite 0) (Finite (- 1)), PxVec3 (Finite 1) (Finite 0) (Finite 1)]
       [3, 2, 0, 3, 0, 1],
     Op_CreateStaticActor sdk_ok 0 (PxVec3 (Finite 0) (Finite (- 250)) (Finite 0))
       (PxQuat (Finite 0) (Finite 0) (Finite 0) (Finite 1))
       (PxVec3 (Finite 500) (Finite 1) (Finite 500)),
     Op_CreateCharacterController (sdk_ok\<lparr>createController := Some 15\<rparr>)
       (PxVec3 (Finite 0) (Finite 0) (Finite 0)) (Finite 125) (Finite 20),
     Op_SimulateFixedFrequency (Finite 60) True,
     Op_MoveCharacter sdk_ok 0 (PxVec3 (Finite 7) (Finite 0) (Finite 0)) (Finite 1) True]"

section \<open>Properties\<close>

lemma trace_emit: "trace (emit e s) = trace s @ [e]"
  by (simp add: emit_def)

lemma TriangleMeshes_emit: "TriangleMeshes (emit e s) = TriangleMeshes s"
  by (simp add: emit_def)

lemma Characters_emit: "Characters (emit e s) = Characters s"
  by (simp add: emit_def)

lemma cout_lines_append: "cout_lines (xs @ ys) = cout_lines xs @ cout_lines ys"
  by (induction xs rule: cout_lines.induct) simp_all

lemma added_actors_append: "added_actors (xs @ ys) = added_actors xs @ added_actors ys"
  by (induction xs rule: added_actors.induct) simp_all

subsection \<open>Validation of the index count\<close>

text \<open>
  C6. When the length of the index list is not a multiple of 3,
  \<open>CreatePhysicsTriangleMesh\<close> returns the failure sentinel (\<open>-1\<close> as a \<open>size_t\<close>); all it
  does is write one line to \<open>std::cout\<close>: the cooker is not called and the mesh table is
  the one it was.
\<close>

theorem CreatePhysicsTriangleMesh_bad_index_count:
  assumes "length IndexList mod 3 \<noteq> 0"
  shows "CreatePhysicsTriangleMesh k VertexList IndexList s =
           Inr (- 1, emit (Cout ''The index count must be a multiple of 3'') s)
         \<and> (\<exists>s'. CreatePhysicsTriangleMesh k VertexList IndexList s = Inr (- 1, s')
                \<and> cooker_calls (trace s') = cooker_calls (trace s)
                \<and> TriangleMeshes s' = TriangleMeshes s)"
  using assms
  by (simp add: CreatePhysicsTriangleMesh_def trace_emit TriangleMeshes_emit cooker_calls_def)

theorem CreatePhysicsTriangleMesh_bad_index_count_witness:
  "length [3, 2, 0, 3 :: uint32_t] mod 3 \<noteq> 0
   \<and> CreatePhysicsTriangleMesh sdk_ok [PxVec3 (Finite 0) (Finite 0) (Finite 0)]
         [3, 2, 0, 3 :: uint32_t] engine0 =
       Inr (- 1, emit (Cout ''The index count must be a multiple of 3'') engine0)
   \<and> cooker_calls (trace (emit (Cout ''The index count must be a multiple of 3'') engine0)) = []
   \<and> TriangleMeshes (emit (Cout ''The index count must be a multiple of 3'') engine0) = []"
  using CreatePhysicsTriangleMesh_bad_index_count
          [of "[3, 2, 0, 3 :: uint32_t]" sdk_ok "[PxVec3 (Finite 0) (Finite 0) (Finite 0)]" engine0]
  by (simp add: engine0_def emit_def cooker_calls_def)

subsection \<open>Bounds checks of the handles\<close>

text \<open>A \<open>size_t\<close> is never below zero, so the first conjunct of both bounds checks is
  false whatever the handle is.\<close>

lemma size_t_never_negative: "\<not> (ID :: size_t) < 0"
  by simp

lemma GetCharacter_in_range:
  "unat ID < length (Characters s) \<Longrightarrow> GetCharacter ID s = Inr (Characters s ! unat ID, s)"
  by (simp add: GetCharacter_def)

text \<open>
  C1. What \<open>CreateStaticActor\<close> does with a handle at or beyond the size of the mesh
  table: the check \<open>MeshID < 0 && MeshID >= TriangleMeshes.size()\<close> does not hold, nothing
  is written and \<open>false\<close> is not returned; control reaches \<open>TriangleMeshes[MeshID]\<close>,
  a read outside the vector.
\<close>

theorem CreateStaticActor_out_of_range:
  assumes "length (TriangleMeshes s) \<le> unat MeshID"
  shows "CreateStaticActor k MeshID Position Rotation Scale s = Inl OutOfBoundsAccess"
  using assms by (simp add: CreateStaticActor_def)

theorem CreateStaticActor_out_of_range_witness:
  "length (TriangleMeshes engine0) \<le> unat (0 :: size_t)
   \<and> CreateStaticActor sdk_ok 0 (PxVec3 (Finite 0) (Finite (- 250)) (Finite 0))
         (PxQuat (Finite 0) (Finite 0) (Finite 0) (Finite 1))
         (PxVec3 (Finite 500) (Finite 1) (Finite 500)) engine0
       = Inl OutOfBoundsAccess"
  using CreateStaticActor_out_of_range
          [of engine0 0 sdk_ok "PxVec3 (Finite 0) (Finite (- 250)) (Finite 0)"
              "PxQuat (Finite 0) (Finite 0) (Finite 0) (Finite 1)"
              "PxVec3 (Finite 500) (Finite 1) (Finite 500)"]
  by (simp add: engine0_def)

text \<open>
  C5. What \<open>GetCharacter\<close> does with an ID at or beyond the size of the controller
  table: the check \<open>ID < 0 && ID >= Characters.size()\<close> does not hold, \<open>nullptr\<close> is not
  returned; control reaches \<open>Characters[ID]\<close>, a read outside the vector. (For an ID
  inside the table the stored controller is returned: \<open>GetCharacter_in_range\<close>.)
\<close>

theorem GetCharacter_out_of_range:
  assumes "length (Characters s) \<le> unat ID"
  shows "GetCharacter ID s = Inl OutOfBoundsAccess"
  using assms by (simp add: GetCharacter_def)

theorem GetCharacter_out_of_range_witness:
  "length (Characters engine0) \<le> unat (5 :: size_t) \<and> GetCharacter 5 engine0 = Inl OutOfBoundsAccess"
  using GetCharacter_out_of_range [of engine0 5]
  by (simp add: engine0_def)

subsection \<open>Rounding\<close>

text \<open>Powers of two with integer exponents.\<close>

lemma two_powi_Suc: "(2 :: real) powi (e + 1) = 2 * 2 powi e"
  by (simp add: power_int_add_1)

lemma two_powi_pred: "(2 :: real) powi (e - 1) = 2 powi e / 2"
  using two_powi_Suc [of "e - 1"] by simp

text \<open>A positive real lies in its binade, and in no other.\<close>

lemma binade_bounds:
  assumes "0 < x"
  shows "2 powi binade x \<le> x \<and> x < 2 powi (binade x + 1)"
  using assms
proof (induction x rule: binade.induct)
  case (1 x)
  show ?case
  proof (cases "2 \<le> x")
    case True
    with "1.prems" have b: "binade x = binade (x / 2) + 1"
      by (simp add: binade.simps [of x])
    from "1.IH"(1) True "1.prems"
    have "2 powi binade (x / 2) \<le> x / 2 \<and> x / 2 < 2 powi (binade (x / 2) + 1)"
      by simp
    moreover have "(2 :: real) powi (binade (x / 2) + 1 + 1) = 2 * 2 powi (binade (x / 2) + 1)"
      by (rule two_powi_Suc)
    moreover have "(2 :: real) powi (binade (x / 2) + 1) = 2 * 2 powi binade (x / 2)"
      by (rule two_powi_Suc)
    ultimately show ?thesis
      unfolding b by linarith
  next
    case False
    show ?thesis
    proof (cases "x < 1")
      case True
      with False "1.prems" have b: "binade x = binade (2 * x) - 1"
        by (simp add: binade.simps [of x])
      from "1.IH"(2) True False "1.prems"
      have "2 powi binade (2 * x) \<le> 2 * x \<and> 2 * x < 2 powi (binade (2 * x) + 1)"
        by simp
      moreover have "(2 :: real) powi (binade (2 * x) - 1) = 2 powi binade (2 * x) / 2"
        by (rule two_powi_pred)
      moreover have "(2 :: real) powi (binade (2 * x) + 1) = 2 * 2 powi binade (2 * x)"
        by (rule two_powi_Suc)
      moreover have "binade (2 * x) - 1 + 1 = binade (2 * x)"
        by simp
      ultimately show ?thesis
        unfolding b by (simp only:) linarith
    next
      case ge: False
      with False "1.prems" have "binade x = 0"
        by (simp add: binade.simps [of x])
      with ge False show ?thesis
        by simp
    qed
  qed
qed

lemma binade_unique:
  assumes "2 powi e \<le> x" and "x < 2 powi (e + 1)"
  shows "binade x = e"
proof -
  have pos: "0 < x"
    using assms(1) zero_less_power_int [of "2 :: real" e] by linarith
  from binade_bounds [OF pos]
  have lo: "2 powi binade x \<le> x" and hi: "x < 2 powi (binade x + 1)"
    by simp_all
  have "\<not> e + 1 \<le> binade x"
  proof
    assume "e + 1 \<le> binade x"
    then have "(2 :: real) powi (e + 1) \<le> 2 powi binade x"
      by (intro power_int_increasing) simp_all
    with lo assms(2) show False
      by linarith
  qed
  moreover have "\<not> binade x + 1 \<le> e"
  proof
    assume "binade x + 1 \<le> e"
    then have "(2 :: real) powi (binade x + 1) \<le> 2 powi e"
      by (intro power_int_increasing) simp_all
    with hi assms(1) show False
      by linarith
  qed
  ultimately show ?thesis
    by linarith
qed

lemma binade_ge:
  assumes "2 powi e \<le> x"
  shows "e \<le> binade x"
proof (rule ccontr)
  assume "\<not> e \<le> binade x"
  then have "binade x + 1 \<le> e"
    by simp
  then have "(2 :: real) powi (binade x + 1) \<le> 2 powi e"
    by (intro power_int_increasing) simp_all
  moreover have "0 < x"
    using assms zero_less_power_int [of "2 :: real" e] by linarith
  ultimately show False
    using binade_bounds [of x] assms by linarith
qed

lemma binade_le:
  assumes "0 < x" and "x < 2 powi (e + 1)"
  shows "binade x \<le> e"
proof (rule ccontr)
  assume "\<not> binade x \<le> e"
  then have "e + 1 \<le> binade x"
    by simp
  then have "(2 :: real) powi (e + 1) \<le> 2 powi binade x"
    by (intro power_int_increasing) simp_all
  then show False
    using binade_bounds [OF assms(1)] assms(2) by linarith
qed

text \<open>Rounding to an integer moves a real by a half at most, and leaves an integer
  where it is.\<close>

lemma round_half_even_error: "\<bar>of_int (round_half_even y) - y\<bar> \<le> 1 / 2"
proof -
  have "of_int \<lfloor>y\<rfloor> \<le> y" and "y < of_int \<lfloor>y\<rfloor> + 1"
    by linarith+
  then show ?thesis
    by (auto simp: round_half_even_def Let_def)
qed

lemma round_half_even_of_int: "round_half_even (of_int k) = k"
  by (simp add: round_half_even_def)

lemma two_powi_split: "(2 :: real) powi (a + b) = 2 powi a * 2 powi b"
  by (simp add: power_int_add)

lemma two_powi_minus_split: "(2 :: real) powi (a - b) = 2 powi a * 2 powi (- b)"
  using two_powi_split [of a "- b"] by simp

text \<open>Rounding to a multiple of \<open>q\<close> moves a real by \<open>q / 2\<close> at most.\<close>

lemma round_to_grid_error:
  assumes "0 < q"
  shows "\<bar>of_int (round_half_even (x / q)) * q - x\<bar> \<le> q / 2"
proof -
  have "of_int (round_half_even (x / q)) * q - x = (of_int (round_half_even (x / q)) - x / q) * q"
    using assms by (simp add: field_simps)
  then have "\<bar>of_int (round_half_even (x / q)) * q - x\<bar>
               = \<bar>of_int (round_half_even (x / q)) - x / q\<bar> * q"
    using assms by (simp add: abs_mult)
  also have "\<dots> \<le> (1 / 2) * q"
    using round_half_even_error [of "x / q"] assms by (intro mult_right_mono) simp_all
  finally show ?thesis
    by simp
qed

text \<open>
  The error of a rounding. A real of magnitude up to \<open>3/2 * 2^emax\<close> rounds to a finite
  value, with a relative error of \<open>2^-p\<close> at most in the normal range and an absolute
  error of \<open>2^(emin - p)\<close> at most below it.
\<close>

lemma fp_round_error:
  assumes p: "3 \<le> p" and x: "\<bar>x\<bar> \<le> 3 / 2 * 2 powi emax" and range: "emin \<le> emax"
  shows "\<exists>r. fp_round p emin emax x = Finite r
           \<and> \<bar>r - x\<bar> \<le> 2 powi (- int p) * \<bar>x\<bar> + 2 powi (emin - int p)"
proof (cases "x = 0")
  case True
  then show ?thesis
    by (simp add: fp_round_def)
next
  case False
  define e where "e = max (binade \<bar>x\<bar>) emin"
  define q :: real where "q = 2 powi (e - int p + 1)"
  define r where "r = of_int (round_half_even (x / q)) * q"
  define t :: real where "t = 2 powi (- int p)"
  define E :: real where "E = 2 powi emax"
  have qpos: "0 < q" and tpos: "0 < t" and Epos: "0 < E"
    by (simp_all add: q_def t_def E_def)
  have ax: "0 < \<bar>x\<bar>"
    using False by simp
  have "(2 :: real) ^ 3 \<le> 2 ^ p"
    using p by (intro power_increasing) simp_all
  then have pw: "(8 :: real) \<le> 2 ^ p"
    by simp
  have t_inv: "t = 1 / 2 ^ p"
    by (simp add: t_def power_int_minus field_simps)
  have t8: "t \<le> 1 / 8"
    unfolding t_inv using pw by (simp add: field_simps)
  have tp: "2 ^ p * t = 1"
    unfolding t_inv by simp
  have half: "q / 2 = 2 powi e * t"
  proof -
    have "q = 2 powi (e + (- int p) + 1)"
      by (simp add: q_def)
    also have "\<dots> = 2 * (2 powi e * 2 powi (- int p))"
      by (simp add: power_int_add two_powi_minus_split)
    finally show ?thesis
      by (simp add: t_def)
  qed
  have err: "\<bar>r - x\<bar> \<le> q / 2"
    unfolding r_def by (rule round_to_grid_error [OF qpos])
  have bx: "binade \<bar>x\<bar> \<le> emax"
  proof (rule binade_le [OF ax])
    have "3 / 2 * 2 powi emax < 2 * (2 :: real) powi emax"
      by simp
    with x show "\<bar>x\<bar> < 2 powi (emax + 1)"
      by (simp only: two_powi_Suc)
  qed
  then have "e \<le> emax"
    using range by (simp add: e_def)
  then have "(2 :: real) powi e \<le> E"
    unfolding E_def by (intro power_int_increasing) simp_all
  then have qE: "q / 2 \<le> E * t"
    unfolding half using tpos by simp
  have limit: "(2 ^ p - 1) * 2 powi (emax - int p + 1) = 2 * E * (1 - t)"
  proof -
    have "(2 :: real) powi (emax - int p + 1) = 2 powi (emax + (- int p) + 1)"
      by simp
    also have "\<dots> = 2 * (E * t)"
      by (simp add: power_int_add two_powi_minus_split E_def t_def)
    finally have "(2 ^ p - 1) * 2 powi (emax - int p + 1) = 2 * E * (2 ^ p * t - t)"
      by (simp add: algebra_simps)
    then show ?thesis
      by (simp only: tp)
  qed
  have "\<bar>r\<bar> \<le> \<bar>x\<bar> + q / 2"
    using err by linarith
  also have "\<dots> \<le> 3 / 2 * E + E * t"
    using x qE by (simp add: E_def)
  also have "\<dots> \<le> 2 * E * (1 - t)"
  proof -
    have "E * t \<le> E * (1 / 8)"
      using t8 Epos by (intro mult_left_mono) simp_all
    moreover have "2 * E * (1 - t) = 2 * E - 2 * (E * t)"
      by (simp add: algebra_simps)
    ultimately show ?thesis
      using Epos by linarith
  qed
  finally have fin: "\<not> (2 ^ p - 1) * 2 powi (emax - int p + 1) < \<bar>r\<bar>"
    unfolding limit by simp
  have res: "fp_round p emin emax x = Finite r"
    using False fin by (simp add: fp_round_def Let_def e_def q_def r_def)
  have bound: "q / 2 \<le> t * \<bar>x\<bar> + 2 powi (emin - int p)"
  proof (cases "emin \<le> binade \<bar>x\<bar>")
    case True
    then have "e = binade \<bar>x\<bar>"
      by (simp add: e_def)
    then have "2 powi e \<le> \<bar>x\<bar>"
      using binade_bounds [OF ax] by simp
    then have "q / 2 \<le> \<bar>x\<bar> * t"
      unfolding half using tpos by simp
    moreover have "0 \<le> (2 :: real) powi (emin - int p)"
      by simp
    moreover have "\<bar>x\<bar> * t = t * \<bar>x\<bar>"
      by simp
    ultimately show ?thesis
      by linarith
  next
    case False
    then have "e = emin"
      by (simp add: e_def)
    then have "q / 2 = 2 powi (emin - int p)"
      unfolding half t_def by (simp only: two_powi_minus_split)
    moreover have "0 \<le> t * \<bar>x\<bar>"
      using tpos by simp
    ultimately show ?thesis
      by linarith
  qed
  from res err bound show ?thesis
    unfolding t_def by (intro exI [of _ r]) simp
qed

text \<open>A multiplication by a power of two shifts the binade.\<close>

lemma binade_scale:
  assumes "0 < x"
  shows "binade (x * 2 powi s) = binade x + s"
proof (rule binade_unique)
  from binade_bounds [OF assms]
  have lo: "2 powi binade x \<le> x" and hi: "x < 2 powi (binade x + 1)"
    by simp_all
  have pos: "0 < (2 :: real) powi s"
    by simp
  show "2 powi (binade x + s) \<le> x * 2 powi s"
    using lo pos by (simp only: two_powi_split) simp
  have "x * 2 powi s < 2 powi (binade x + 1) * 2 powi s"
    using hi pos by simp
  also have "\<dots> = 2 powi (binade x + s + 1)"
    by (simp add: power_int_add)
  finally show "x * 2 powi s < 2 powi (binade x + s + 1)" .
qed

text \<open>What a value that rounds to itself looks like.\<close>

lemma fp_round_fixed:
  assumes "fp_round p emin emax x = Finite x" and "x \<noteq> 0"
  shows "\<exists>n. x = of_int n * 2 powi (max (binade \<bar>x\<bar>) emin - int p + 1)
           \<and> \<bar>x\<bar> \<le> (2 ^ p - 1) * 2 powi (emax - int p + 1)"
proof -
  let ?q = "(2 :: real) powi (max (binade \<bar>x\<bar>) emin - int p + 1)"
  let ?r = "of_int (round_half_even (x / ?q)) * ?q"
  from assms have "\<not> (2 ^ p - 1) * 2 powi (emax - int p + 1) < \<bar>?r\<bar>" and "?r = x"
    by (auto simp: fp_round_def Let_def split: if_splits)
  then show ?thesis
    by (intro exI [of _ "round_half_even (x / ?q)"]) simp
qed

text \<open>A multiple of the grid of its binade, inside the range, rounds to itself.\<close>

lemma fp_round_on_grid:
  assumes "x = of_int n * 2 powi (max (binade \<bar>x\<bar>) emin - int p + 1)"
    and "\<bar>x\<bar> \<le> (2 ^ p - 1) * 2 powi (emax - int p + 1)"
  shows "fp_round p emin emax x = Finite x"
proof (cases "x = 0")
  case True
  then show ?thesis
    by (simp add: fp_round_def)
next
  case False
  let ?q = "(2 :: real) powi (max (binade \<bar>x\<bar>) emin - int p + 1)"
  have "x / ?q = of_int n"
    using assms(1) by (metis nonzero_mult_div_cancel_right power_int_eq_0_iff zero_neq_numeral)
  then have "of_int (round_half_even (x / ?q)) * ?q = x"
    using assms(1) by (simp only: round_half_even_of_int)
  with False assms(2) show ?thesis
    by (simp add: fp_round_def Let_def)
qed

text \<open>
  A value of one format, scaled by a power of two, is a value of a format that is at
  least as precise, as long as the result is in that format's normal range.
\<close>

lemma fp_round_scaled:
  assumes src: "fp_round p emin emax x = Finite x"
    and prec: "p \<le> p'"
    and low: "x \<noteq> 0 \<Longrightarrow> emin' \<le> binade \<bar>x\<bar> + s"
    and high: "\<bar>x * 2 powi s\<bar> \<le> (2 ^ p' - 1) * 2 powi (emax' - int p' + 1)"
  shows "fp_round p' emin' emax' (x * 2 powi s) = Finite (x * 2 powi s)"
proof (cases "x = 0")
  case True
  then show ?thesis
    by (simp add: fp_round_def)
next
  case False
  let ?b = "binade \<bar>x\<bar>"
  from fp_round_fixed [OF src False] obtain n
    where n: "x = of_int n * 2 powi (max ?b emin - int p + 1)"
    by blast
  have ax: "0 < \<bar>x\<bar>"
    using False by simp
  have "\<bar>x * 2 powi s\<bar> = \<bar>x\<bar> * 2 powi s"
    by (simp add: abs_mult)
  then have b': "binade \<bar>x * 2 powi s\<bar> = ?b + s"
    using binade_scale [OF ax, of s] by simp
  with low [OF False] have e': "max (binade \<bar>x * 2 powi s\<bar>) emin' = ?b + s"
    by simp
  define k where "k = nat (max ?b emin - ?b + (int p' - int p))"
  have k: "int k = max ?b emin - ?b + (int p' - int p)"
    using prec by (simp add: k_def)
  define A :: real where "A = 2 powi (max ?b emin - int p + 1)"
  define B :: real where "B = 2 powi (?b + s - int p' + 1)"
  have "max ?b emin - int p + 1 + s = int k + (?b + s - int p' + 1)"
    by (simp add: k)
  then have "A * 2 powi s = 2 powi (int k + (?b + s - int p' + 1))"
    unfolding A_def by (simp only: two_powi_split [symmetric])
  also have "\<dots> = 2 ^ k * B"
    unfolding B_def by (simp only: two_powi_split power_int_of_nat)
  finally have AB: "A * 2 powi s = 2 ^ k * B" .
  have "x = of_int n * A"
    using n by (simp only: A_def)
  then have "x * 2 powi s = of_int n * (A * 2 powi s)"
    by (simp only: mult.assoc)
  also have "\<dots> = of_int (n * 2 ^ k) * B"
    by (simp only: AB) simp
  finally have grid: "x * 2 powi s = of_int (n * 2 ^ k) * B" .
  have "B = 2 powi (max (binade \<bar>x * 2 powi s\<bar>) emin' - int p' + 1)"
    by (simp only: e' B_def)
  from fp_round_on_grid [OF grid [unfolded this] high] show ?thesis .
qed

text \<open>The two formats of the program.\<close>

lemma round32_error:
  assumes "\<bar>x\<bar> \<le> 3 / 2 * 2 ^ 127"
  shows "\<exists>r. round32 x = Finite r \<and> \<bar>r - x\<bar> \<le> \<bar>x\<bar> / 2 ^ 24 + 1 / 2 ^ 150"
proof -
  have "\<bar>x\<bar> \<le> 3 / 2 * 2 powi 127"
    using assms by simp
  from fp_round_error [of 24 x 127 "- 126", OF _ this]
  obtain r where "round32 x = Finite r"
    and "\<bar>r - x\<bar> \<le> 2 powi (- int 24) * \<bar>x\<bar> + 2 powi (- 126 - int 24)"
    unfolding round32_def by auto
  moreover have "(2 :: real) powi (- int 24) = 1 / 2 ^ 24" and "(2 :: real) powi (- 126 - int 24) = 1 / 2 ^ 150"
    by (simp_all add: power_int_minus field_simps)
  ultimately show ?thesis
    by (intro exI [of _ r]) (simp add: field_simps)
qed

lemma round64_error:
  assumes "\<bar>x\<bar> \<le> 3 / 2 * 2 ^ 1023"
  shows "\<exists>r. round64 x = Finite r \<and> \<bar>r - x\<bar> \<le> \<bar>x\<bar> / 2 ^ 53 + 1 / 2 ^ 1075"
proof -
  have "\<bar>x\<bar> \<le> 3 / 2 * 2 powi 1023"
    using assms by simp
  from fp_round_error [of 53 x 1023 "- 1022", OF _ this]
  obtain r where "round64 x = Finite r"
    and "\<bar>r - x\<bar> \<le> 2 powi (- int 53) * \<bar>x\<bar> + 2 powi (- 1022 - int 53)"
    unfolding round64_def by auto
  moreover have "(2 :: real) powi (- int 53) = 1 / 2 ^ 53" and "(2 :: real) powi (- 1022 - int 53) = 1 / 2 ^ 1075"
    by (simp_all add: power_int_minus field_simps)
  ultimately show ?thesis
    by (intro exI [of _ r]) (simp add: field_simps)
qed

text \<open>A nonzero binary32 value is at least \<open>2^-149\<close> and at most the largest float.\<close>

lemma float32_range:
  assumes "round32 x = Finite x" and "x \<noteq> 0"
  shows "- 149 \<le> binade \<bar>x\<bar>" and "\<bar>x\<bar> \<le> (2 ^ 24 - 1) * 2 ^ 104"
proof -
  from fp_round_fixed [OF assms(1) [unfolded round32_def] assms(2)] obtain n
    where n: "x = of_int n * 2 powi (max (binade \<bar>x\<bar>) (- 126) - int 24 + 1)"
      and top: "\<bar>x\<bar> \<le> (2 ^ 24 - 1) * 2 powi (127 - int 24 + 1)"
    by blast
  from top show "\<bar>x\<bar> \<le> (2 ^ 24 - 1) * 2 ^ 104"
    by simp
  define q :: real where "q = 2 powi (max (binade \<bar>x\<bar>) (- 126) - int 24 + 1)"
  have x: "x = of_int n * q"
    using n by (simp only: q_def)
  have "n \<noteq> 0"
    using x assms(2) by auto
  then have "1 \<le> \<bar>real_of_int n\<bar>"
    by (simp add: abs_if)
  moreover have qpos: "0 < q"
    by (simp add: q_def)
  ultimately have "1 * q \<le> \<bar>real_of_int n\<bar> * q"
    by (intro mult_right_mono) simp_all
  then have "q \<le> \<bar>x\<bar>"
    using x qpos by (simp add: abs_mult)
  moreover have "(2 :: real) powi (- 149) \<le> q"
    unfolding q_def by (intro power_int_increasing) simp_all
  ultimately have "2 powi (- 149) \<le> \<bar>x\<bar>"
    by linarith
  then show "- 149 \<le> binade \<bar>x\<bar>"
    by (rule binade_ge)
qed

text \<open>The conversion of a float to double is exact, and so is a division by four in
  double.\<close>

lemma float32_scaled_in_double:
  assumes "round32 x = Finite x" and "- 4 \<le> s" and "s \<le> 0"
  shows "round64 (x * 2 powi s) = Finite (x * 2 powi s)"
  unfolding round64_def
proof (rule fp_round_scaled [OF assms(1) [unfolded round32_def]])
  show "(24 :: nat) \<le> 53"
    by simp
  show "- 1022 \<le> binade \<bar>x\<bar> + s" if "x \<noteq> 0"
    using float32_range(1) [OF assms(1) that] assms(2) by simp
  have "(2 :: real) powi s \<le> 2 powi 0"
    using assms(3) by (intro power_int_increasing) simp_all
  then have "\<bar>x\<bar> * 2 powi s \<le> \<bar>x\<bar> * 1"
    by (intro mult_left_mono) simp_all
  moreover have "\<bar>x\<bar> \<le> (2 ^ 24 - 1) * 2 ^ 104"
    using float32_range(2) [OF assms(1)] by (cases "x = 0") simp_all
  ultimately show "\<bar>x * 2 powi s\<bar> \<le> (2 ^ 53 - 1) * 2 powi (1023 - int 53 + 1)"
    by (simp add: abs_mult)
qed

lemma float32_to_double:
  assumes "round32 x = Finite x"
  shows "round64 x = Finite x"
  using float32_scaled_in_double [OF assms, of 0] by simp

lemma float32_quarter_in_double:
  assumes "round32 x = Finite x"
  shows "round64 (x * (1 / 4)) = Finite (x / 4)"
  using float32_scaled_in_double [OF assms, of "- 2"] by (simp add: power_int_minus)

text \<open>A quarter of a float is a float, unless the float is so small that its quarter
  falls below the normal range with bits to lose.\<close>

lemma float32_quarter:
  assumes "round32 x = Finite x" and "x = 0 \<or> 1 / 2 ^ 124 \<le> \<bar>x\<bar>"
  shows "round32 (x / 4) = Finite (x / 4)"
proof -
  have "fp_round 24 (- 126) 127 (x * 2 powi (- 2)) = Finite (x * 2 powi (- 2))"
  proof (rule fp_round_scaled [OF assms(1) [unfolded round32_def]])
    show "(24 :: nat) \<le> 24"
      by simp
    show "- 126 \<le> binade \<bar>x\<bar> + - 2" if "x \<noteq> 0"
    proof -
      from that assms(2) have "2 powi (- 124) \<le> \<bar>x\<bar>"
        by (simp add: power_int_minus field_simps)
      then have "- 124 \<le> binade \<bar>x\<bar>"
        by (rule binade_ge)
      then show ?thesis
        by simp
    qed
    have "\<bar>x\<bar> \<le> (2 ^ 24 - 1) * 2 ^ 104"
      using float32_range(2) [OF assms(1)] by (cases "x = 0") simp_all
    then show "\<bar>x * 2 powi (- 2)\<bar> \<le> (2 ^ 24 - 1) * 2 powi (127 - int 24 + 1)"
      by (simp add: abs_mult power_int_minus)
  qed
  then show ?thesis
    by (simp add: round32_def power_int_minus)
qed

text \<open>
  The contact offset. The literal \<open>0.1\<close> is the double \<open>3602879701896397 / 2^55\<close>. For a
  radius \<open>r\<close> that is a float of magnitude up to \<open>2^127\<close>, the product and the sum in
  \<open>double\<close> and the narrowing to \<open>float\<close> give a finite value within
  \<open>\<bar>r\<bar> / 2^23 + 2^-149\<close> of \<open>r * 1.1\<close>.
\<close>

lemma tenth_in_double: "round64 (1 / 10) = Finite (3602879701896397 / 2 ^ 55)"
  by (simp add: round64_def fp_round_def binade.simps round_half_even_def Let_def)

lemma contact_offset_error:
  assumes float: "round32 r = Finite r" and size: "\<bar>r\<bar> \<le> 2 ^ 127"
  shows "\<exists>c. fp_convert round32
               (fp_add round64 (fp_convert round64 (Finite r))
                  (fp_mul round64 (fp_convert round64 (Finite r)) (round64 (1 / 10)))) = Finite c
           \<and> \<bar>c - r * 1.1\<bar> \<le> \<bar>r\<bar> / 2 ^ 23 + 1 / 2 ^ 149"
proof -
  define d :: real where "d = 3602879701896397 / 2 ^ 55"
  define R where "R = \<bar>r\<bar>"
  have R0: "0 \<le> R" and R127: "R \<le> 2 ^ 127"
    using size by (simp_all add: R_def)
  have dv: "d - 1 / 10 = 1 / (5 * 2 ^ 55)" and dpos: "0 < d"
    by (simp_all add: d_def)
  have rd: "\<bar>r * d\<bar> = d * R"
    using dpos by (simp add: abs_mult R_def)
  have tiny: "(1 :: real) / 2 ^ 1075 \<le> 1 / 2 ^ 160"
    by simp
  \<comment> \<open>the product, in double\<close>
  have "\<bar>r * d\<bar> \<le> 3 / 2 * 2 ^ 1023"
  proof -
    have "d * R \<le> 1 * 2 ^ 127"
      using R0 R127 dpos by (intro mult_mono) (simp_all add: d_def)
    also have "\<dots> \<le> (3 / 2 * 2 ^ 1023 :: real)"
      by simp
    finally show ?thesis
      by (simp only: rd)
  qed
  from round64_error [OF this] obtain p1
    where p1: "round64 (r * d) = Finite p1"
      and "\<bar>p1 - r * d\<bar> \<le> \<bar>r * d\<bar> / 2 ^ 53 + 1 / 2 ^ 1075"
    by blast
  define e1 where "e1 = \<bar>p1 - r * d\<bar>"
  have e1: "e1 \<le> d * R / 2 ^ 53 + 1 / 2 ^ 160" and e10: "0 \<le> e1"
    using \<open>\<bar>p1 - r * d\<bar> \<le> \<bar>r * d\<bar> / 2 ^ 53 + 1 / 2 ^ 1075\<close> tiny
    by (simp_all add: e1_def rd)
  \<comment> \<open>the sum, in double\<close>
  have sum_abs: "\<bar>r + p1\<bar> \<le> R + d * R + e1"
  proof -
    have "r + p1 = r + r * d + (p1 - r * d)"
      by simp
    then have "\<bar>r + p1\<bar> \<le> \<bar>r\<bar> + \<bar>r * d\<bar> + \<bar>p1 - r * d\<bar>"
      by linarith
    then show ?thesis
      by (simp only: rd R_def e1_def)
  qed
  have dR: "d * R \<le> 2 ^ 127 / 8"
  proof -
    have "d * R \<le> (1 / 8) * 2 ^ 127"
      using R0 R127 dpos by (intro mult_mono) (simp_all add: d_def)
    then show ?thesis
      by simp
  qed
  have e1_small: "e1 \<le> 2 ^ 72"
  proof -
    have "d * R / 2 ^ 53 \<le> (2 ^ 127 / 8) / 2 ^ 53"
      using dR by (intro divide_right_mono) simp_all
    moreover have "(2 ^ 127 / 8) / 2 ^ 53 + 1 / 2 ^ 160 \<le> (2 ^ 72 :: real)"
      by simp
    ultimately show ?thesis
      using e1 by linarith
  qed
  have "\<bar>r + p1\<bar> \<le> 3 / 2 * 2 ^ 1023"
  proof -
    have "R + d * R + e1 \<le> 2 ^ 127 + 2 ^ 127 / 8 + 2 ^ 72"
      using R127 dR e1_small by linarith
    also have "\<dots> \<le> (3 / 2 * 2 ^ 1023 :: real)"
      by simp
    finally show ?thesis
      using sum_abs by linarith
  qed
  from round64_error [OF this] obtain s
    where s: "round64 (r + p1) = Finite s"
      and "\<bar>s - (r + p1)\<bar> \<le> \<bar>r + p1\<bar> / 2 ^ 53 + 1 / 2 ^ 1075"
    by blast
  define e2 where "e2 = \<bar>s - (r + p1)\<bar>"
  have e20: "0 \<le> e2"
    by (simp add: e2_def)
  have e2: "e2 \<le> (R + d * R + e1) / 2 ^ 53 + 1 / 2 ^ 160"
  proof -
    have "\<bar>r + p1\<bar> / 2 ^ 53 \<le> (R + d * R + e1) / 2 ^ 53"
      using sum_abs by (intro divide_right_mono) simp_all
    with \<open>\<bar>s - (r + p1)\<bar> \<le> \<bar>r + p1\<bar> / 2 ^ 53 + 1 / 2 ^ 1075\<close> tiny show ?thesis
      unfolding e2_def by linarith
  qed
  have e2_small: "e2 \<le> 2 ^ 76"
  proof -
    have "R + d * R + e1 \<le> 2 ^ 127 + 2 ^ 127 / 8 + 2 ^ 72"
      using R127 dR e1_small by linarith
    then have "(R + d * R + e1) / 2 ^ 53 \<le> (2 ^ 127 + 2 ^ 127 / 8 + 2 ^ 72) / 2 ^ 53"
      by (intro divide_right_mono) simp_all
    moreover have "(2 ^ 127 + 2 ^ 127 / 8 + 2 ^ 72) / 2 ^ 53 + 1 / 2 ^ 160 \<le> (2 ^ 76 :: real)"
      by simp
    ultimately show ?thesis
      using e2 by linarith
  qed
  \<comment> \<open>the narrowing to float\<close>
  have s_abs: "\<bar>s\<bar> \<le> R + d * R + e1 + e2"
    using sum_abs unfolding e2_def by linarith
  have "\<bar>s\<bar> \<le> 3 / 2 * 2 ^ 127"
  proof -
    have "R + d * R + e1 + e2 \<le> 2 ^ 127 + 2 ^ 127 / 8 + 2 ^ 72 + 2 ^ 76"
      using R127 dR e1_small e2_small by linarith
    also have "\<dots> \<le> (3 / 2 * 2 ^ 127 :: real)"
      by simp
    finally show ?thesis
      using s_abs by linarith
  qed
  from round32_error [OF this] obtain c
    where c: "round32 s = Finite c"
      and "\<bar>c - s\<bar> \<le> \<bar>s\<bar> / 2 ^ 24 + 1 / 2 ^ 150"
    by blast
  define e3 where "e3 = \<bar>c - s\<bar>"
  have e3: "e3 \<le> (R + d * R + e1 + e2) / 2 ^ 24 + 1 / 2 ^ 150"
  proof -
    have "\<bar>s\<bar> / 2 ^ 24 \<le> (R + d * R + e1 + e2) / 2 ^ 24"
      using s_abs by (intro divide_right_mono) simp_all
    with \<open>\<bar>c - s\<bar> \<le> \<bar>s\<bar> / 2 ^ 24 + 1 / 2 ^ 150\<close> show ?thesis
      unfolding e3_def by linarith
  qed
  \<comment> \<open>all together\<close>
  have "c - r * 1.1 = (c - s) + (s - (r + p1)) + (p1 - r * d) + r * (d - 1 / 10)"
    by (simp add: algebra_simps)
  then have "\<bar>c - r * 1.1\<bar> \<le> e3 + e2 + e1 + \<bar>r * (d - 1 / 10)\<bar>"
    unfolding e3_def e2_def e1_def by linarith
  moreover have "\<bar>r * (d - 1 / 10)\<bar> = R / (5 * 2 ^ 55)"
    unfolding dv by (simp add: abs_mult R_def)
  ultimately have total: "\<bar>c - r * 1.1\<bar> \<le> e3 + e2 + e1 + R / (5 * 2 ^ 55)"
    by simp
  define dR' where "dR' = d * R"
  have dR'1: "dR' \<le> R / 8" and dR'0: "0 \<le> dR'"
  proof -
    have "d * R \<le> (1 / 8) * R"
      using R0 by (intro mult_right_mono) (simp_all add: d_def)
    then show "dR' \<le> R / 8"
      by (simp add: dR'_def)
    show "0 \<le> dR'"
      using R0 dpos by (simp add: dR'_def)
  qed
  have "\<bar>c - r * 1.1\<bar> \<le> R / 2 ^ 23 + 1 / 2 ^ 149"
    using total e1 e2 e3 e10 e20 dR'1 dR'0 R0 unfolding dR'_def [symmetric]
    by (simp add: field_simps)
  moreover have "fp_convert round32
               (fp_add round64 (fp_convert round64 (Finite r))
                  (fp_mul round64 (fp_convert round64 (Finite r)) (round64 (1 / 10)))) = Finite c"
    using float32_to_double [OF float] p1 s c
    by (simp add: tenth_in_double d_def)
  ultimately show ?thesis
    unfolding R_def by blast
qed

subsection \<open>Character controllers\<close>

text \<open>
  The contact offset is the double \<open>Radius + Radius * 0.1\<close> narrowed to a float. It is
  not the real number \<open>Radius * 1.1\<close>, which no float is unless \<open>Radius\<close> is zero, and
  it is not the value of the expression \<open>Radius * 1.1\<close> either: for the float
  \<open>10978515 / 2^17\<close> (83.7594223) the descriptor holds \<open>6038183 / 2^16\<close>, and the products
  \<open>Radius * 1.1\<close>, computed in \<open>double\<close> and narrowed, and \<open>Radius * 1.1f\<close>, computed in
  \<open>float\<close>, are both \<open>12076367 / 2^17\<close>, one unit in the last place above.
\<close>

theorem CreateCharacterController_contact_offset_inexact:
  "CreateCharacterController sdk_ok (PxVec3 (Finite 0) (Finite 0) (Finite 0)) (Finite 125)
       (Finite (10978515 / 131072)) engine0 =
     Inr (0, engine0
       \<lparr>Characters := [Some 14],
        trace :=
          [Called_createController 7
             \<lparr>desc_height = Finite 125, desc_radius = Finite (10978515 / 131072),
              desc_position = PxVec3 (Finite 0) (Finite 0) (Finite 0),
              contactOffset = Finite (6038183 / 65536), stepOffset = Finite (125 / 4),
              material = Some 6\<rparr>]\<rparr>)
   \<and> round32 (10978515 / 131072) = Finite (10978515 / 131072)
   \<and> (6038183 / 65536 :: real) \<noteq> 10978515 / 131072 * 1.1
   \<and> fp_convert round32 (fp_mul round64 (Finite (10978515 / 131072)) (round64 1.1)) =
       Finite (12076367 / 131072)
   \<and> fp_mul round32 (Finite (10978515 / 131072)) (round32 1.1) = Finite (12076367 / 131072)"
  by (simp add: CreateCharacterController_def controller_desc_def emit_def engine0_def sdk_ok_def
        round32_def round64_def fp_round_def binade.simps round_half_even_def Let_def)

text \<open>
  C9 (amended). For every start position, every height that is a finite float, zero or
  of magnitude at least \<open>2^-124\<close>, and every radius that is a finite float of magnitude at
  most \<open>2^127\<close>, the descriptor that \<open>CreateCharacterController\<close> hands to the controller
  manager has a finite contact offset within \<open>\<bar>Radius\<bar> / 2^23 + 2^-149\<close> of
  \<open>Radius * 1.1\<close>, and the step offset \<open>Height * 0.25\<close> exactly.
\<close>

theorem CreateCharacterController_descriptor:
  assumes "CharacterManager s = Some mgr"
    and "round32 r = Finite r" and "\<bar>r\<bar> \<le> 2 ^ 127"
    and "round32 h = Finite h" and "h = 0 \<or> 1 / 2 ^ 124 \<le> \<bar>h\<bar>"
  shows "\<exists>ID s' desc tr c.
           CreateCharacterController k StartPosition (Finite h) (Finite r) s = Inr (ID, s')
           \<and> trace s' = trace s @ Called_createController mgr desc # tr
           \<and> contactOffset desc = Finite c
           \<and> \<bar>c - r * 1.1\<bar> \<le> \<bar>r\<bar> / 2 ^ 23 + 1 / 2 ^ 149
           \<and> stepOffset desc = Finite (h * 0.25)"
proof -
  from contact_offset_error [OF assms(2) assms(3)] obtain c
    where c: "fp_convert round32
                (fp_add round64 (fp_convert round64 (Finite r))
                   (fp_mul round64 (fp_convert round64 (Finite r)) (round64 (1 / 10)))) = Finite c"
      and err: "\<bar>c - r * 1.1\<bar> \<le> \<bar>r\<bar> / 2 ^ 23 + 1 / 2 ^ 149"
    by blast
  have "round64 h = Finite h"
    using assms(4) by (rule float32_to_double)
  moreover have "round64 (1 / 4) = Finite (1 / 4)"
    by (simp add: round64_def fp_round_def binade.simps round_half_even_def Let_def)
  moreover have "round64 (h * (1 / 4)) = Finite (h / 4)"
    using assms(4) by (rule float32_quarter_in_double)
  moreover have "round32 (h / 4) = Finite (h / 4)"
    using assms(4) assms(5) by (rule float32_quarter)
  ultimately have step:
    "fp_convert round32 (fp_mul round64 (fp_convert round64 (Finite h)) (round64 (1 / 4))) =
       Finite (h * 0.25)"
    by simp
  let ?desc = "controller_desc StartPosition (Finite h) (Finite r) (DefaultMaterial s)"
  have co: "contactOffset ?desc = Finite c"
    using c by (simp add: controller_desc_def)
  have so: "stepOffset ?desc = Finite (h * 0.25)"
    using step by (simp add: controller_desc_def)
  show ?thesis
  proof (cases "createController k")
    case None
    then have "CreateCharacterController k StartPosition (Finite h) (Finite r) s =
                 Inr (- 1, emit (Cout ''Failed to create the character controller'')
                             (emit (Called_createController mgr ?desc) s))"
      using assms(1) by (simp add: CreateCharacterController_def Let_def)
    moreover have "trace (emit (Cout ''Failed to create the character controller'')
                            (emit (Called_createController mgr ?desc) s)) =
                   trace s @ Called_createController mgr ?desc
                     # [Cout ''Failed to create the character controller'']"
      by (simp add: emit_def)
    ultimately show ?thesis
      using co so err by blast
  next
    case (Some c')
    then have "CreateCharacterController k StartPosition (Finite h) (Finite r) s =
                 Inr (word_of_nat (length (Characters s @ [Some c'])) - 1,
                      (emit (Called_createController mgr ?desc) s)
                        \<lparr>Characters := Characters s @ [Some c']\<rparr>)"
      using assms(1) by (simp add: CreateCharacterController_def Let_def emit_def)
    moreover have "trace ((emit (Called_createController mgr ?desc) s)
                            \<lparr>Characters := Characters s @ [Some c']\<rparr>) =
                   trace s @ Called_createController mgr ?desc # []"
      by (simp add: emit_def)
    ultimately show ?thesis
      using co so err by blast
  qed
qed

theorem CreateCharacterController_descriptor_witness:
  "CharacterManager engine0 = Some 7
   \<and> round32 20 = Finite 20 \<and> \<bar>20 :: real\<bar> \<le> 2 ^ 127
   \<and> round32 125 = Finite 125 \<and> ((125 :: real) = 0 \<or> 1 / 2 ^ 124 \<le> \<bar>125 :: real\<bar>)
   \<and> (\<exists>ID s' desc tr c.
         CreateCharacterController sdk_ok (PxVec3 (Finite 0) (Finite 0) (Finite 0)) (Finite 125)
           (Finite 20) engine0 = Inr (ID, s')
         \<and> trace s' = trace engine0 @ Called_createController 7 desc # tr
         \<and> contactOffset desc = Finite c
         \<and> \<bar>c - 20 * 1.1\<bar> \<le> \<bar>20\<bar> / 2 ^ 23 + 1 / 2 ^ 149
         \<and> stepOffset desc = Finite (125 * 0.25))"
proof -
  have m: "CharacterManager engine0 = Some 7"
    by (simp add: engine0_def)
  have r: "round32 20 = Finite 20"
    by (simp add: round32_def fp_round_def binade.simps round_half_even_def Let_def)
  have rs: "\<bar>20 :: real\<bar> \<le> 2 ^ 127"
    by simp
  have h: "round32 125 = Finite 125"
    by (simp add: round32_def fp_round_def binade.simps round_half_even_def Let_def)
  have hs: "(125 :: real) = 0 \<or> 1 / 2 ^ 124 \<le> \<bar>125 :: real\<bar>"
    by simp
  from CreateCharacterController_descriptor
         [OF m r rs h hs, of sdk_ok "PxVec3 (Finite 0) (Finite 0) (Finite 0)"] m r rs h hs
  show ?thesis
    by blast
qed

subsection \<open>The failure sentinel\<close>

text \<open>The handle returned after a \<open>push_back\<close> onto a table of \<open>n\<close> entries is \<open>n\<close>,
  and it is not the sentinel.\<close>

lemma handle_after_push:
  assumes "n < 2 ^ 64 - 1"
  shows "(of_nat (Suc n) - 1 :: size_t) \<noteq> - 1" and "unat (of_nat (Suc n) - 1 :: size_t) = n"
proof -
  have eq: "(of_nat (Suc n) - 1 :: size_t) = of_nat n"
    by simp
  have n: "unat (of_nat n :: size_t) = n"
    using assms by (simp add: unat_of_nat)
  show "unat (of_nat (Suc n) - 1 :: size_t) = n"
    using eq n by simp
  have "unat (- 1 :: size_t) = 2 ^ 64 - 1"
    by (simp add: unsigned_minus_1_eq_mask mask_eq_exp_minus_1)
  then show "(of_nat (Suc n) - 1 :: size_t) \<noteq> - 1"
    using eq n assms by (metis nat_neq_iff)
qed

text \<open>
  C10. \<open>CreatePhysicsTriangleMesh\<close> and \<open>CreateCharacterController\<close> on a table with
  fewer than \<open>2^64 - 1\<close> entries (more than a vector of pointers can hold): when the
  validation or an SDK call fails, the sentinel \<open>-1\<close> is returned and the table is the
  one it was; when all succeed, the table has one more entry at the end, the handle is
  its index, and the handle is not the sentinel.
\<close>

theorem failure_sentinel_never_a_handle:
  assumes "length (TriangleMeshes s) < 2 ^ 64 - 1" and "length (Characters s) < 2 ^ 64 - 1"
  shows "(\<forall>h s'. CreatePhysicsTriangleMesh k VertexList IndexList s = Inr (h, s') \<longrightarrow>
            (if length IndexList mod 3 = 0 \<and> createTriangleMesh k \<noteq> None \<and> cookTriangleMesh k
             then h \<noteq> - 1 \<and> unat h = length (TriangleMeshes s)
                  \<and> TriangleMeshes s' = TriangleMeshes s @ [createTriangleMesh k]
             else h = - 1 \<and> TriangleMeshes s' = TriangleMeshes s))
       \<and> (\<forall>h s'. CreateCharacterController k' StartPosition Height Radius s = Inr (h, s') \<longrightarrow>
            (if createController k' \<noteq> None
             then h \<noteq> - 1 \<and> unat h = length (Characters s)
                  \<and> Characters s' = Characters s @ [createController k']
             else h = - 1 \<and> Characters s' = Characters s))"
proof (intro conjI allI impI)
  fix h s'
  assume r: "CreatePhysicsTriangleMesh k VertexList IndexList s = Inr (h, s')"
  show "if length IndexList mod 3 = 0 \<and> createTriangleMesh k \<noteq> None \<and> cookTriangleMesh k
        then h \<noteq> - 1 \<and> unat h = length (TriangleMeshes s)
             \<and> TriangleMeshes s' = TriangleMeshes s @ [createTriangleMesh k]
        else h = - 1 \<and> TriangleMeshes s' = TriangleMeshes s"
    using r handle_after_push [OF assms(1)]
    by (auto simp: CreatePhysicsTriangleMesh_def emit_def Let_def
             split: if_splits option.splits)
next
  fix h s'
  assume r: "CreateCharacterController k' StartPosition Height Radius s = Inr (h, s')"
  show "if createController k' \<noteq> None
        then h \<noteq> - 1 \<and> unat h = length (Characters s)
             \<and> Characters s' = Characters s @ [createController k']
        else h = - 1 \<and> Characters s' = Characters s"
    using r handle_after_push [OF assms(2)]
    by (auto simp: CreateCharacterController_def emit_def Let_def
             split: if_splits option.splits)
qed

theorem failure_sentinel_never_a_handle_witness:
  "\<exists>h s' h2 s2.
     CreatePhysicsTriangleMesh sdk_ok
       [PxVec3 (Finite (- 1)) (Finite 0) (Finite (- 1)),
        PxVec3 (Finite (- 1)) (Finite 0) (Finite 1),
        PxVec3 (Finite 1) (Finite 0) (Finite (- 1)),
        PxVec3 (Finite 1) (Finite 0) (Finite 1)]
       [3, 2, 0, 3, 0, 1 :: uint32_t] engine0 = Inr (h, s')
     \<and> h \<noteq> - 1 \<and> unat h = 0 \<and> TriangleMeshes s' = [Some 11]
     \<and> CreateCharacterController (sdk_ok\<lparr>createController := None\<rparr>)
          (PxVec3 (Finite 0) (Finite 0) (Finite 0)) (Finite 125) (Finite 20) engine0 = Inr (h2, s2)
     \<and> h2 = - 1 \<and> Characters s2 = []"
proof -
  have pre: "length (TriangleMeshes engine0) < 2 ^ 64 - 1" "length (Characters engine0) < 2 ^ 64 - 1"
    by (simp_all add: engine0_def)
  obtain h s' where a:
    "CreatePhysicsTriangleMesh sdk_ok
       [PxVec3 (Finite (- 1)) (Finite 0) (Finite (- 1)),
        PxVec3 (Finite (- 1)) (Finite 0) (Finite 1),
        PxVec3 (Finite 1) (Finite 0) (Finite (- 1)),
        PxVec3 (Finite 1) (Finite 0) (Finite 1)]
       [3, 2, 0, 3, 0, 1 :: uint32_t] engine0 = Inr (h, s')"
    by (simp add: CreatePhysicsTriangleMesh_def engine0_def sdk_ok_def Let_def)
  obtain h2 s2 where b:
    "CreateCharacterController (sdk_ok\<lparr>createController := None\<rparr>)
       (PxVec3 (Finite 0) (Finite 0) (Finite 0)) (Finite 125) (Finite 20) engine0 = Inr (h2, s2)"
    by (simp add: CreateCharacterController_def engine0_def sdk_ok_def Let_def)
  from failure_sentinel_never_a_handle
         [OF pre, of sdk_ok
            "[PxVec3 (Finite (- 1)) (Finite 0) (Finite (- 1)),
              PxVec3 (Finite (- 1)) (Finite 0) (Finite 1),
              PxVec3 (Finite 1) (Finite 0) (Finite (- 1)),
              PxVec3 (Finite 1) (Finite 0) (Finite 1)]"
            "[3, 2, 0, 3, 0, 1 :: uint32_t]"
            "sdk_ok\<lparr>createController := None\<rparr>" "PxVec3 (Finite 0) (Finite 0) (Finite 0)" "Finite 125" "Finite 20"]
       a b
  show ?thesis
    by (simp add: sdk_ok_def engine0_def)
qed

subsection \<open>Results of the SDK that are not checked\<close>

text \<open>The three results that \<open>Initialize\<close> checks: a failure writes one line and
  returns \<open>false\<close>. A null scene is dereferenced on the next line.\<close>

lemma Initialize_checked_results:
  assumes "PxCreateFoundation k = None
           \<or> (\<not> debug \<and> (PxCreatePhysics k = None \<or> PxCreateCooking k = None))"
  shows "\<exists>s' line. Initialize debug k NumThreads g s = Inr (False, s')
           \<and> cout_lines (trace s') = cout_lines (trace s) @ [line]"
  using assms
  by (auto simp: Initialize_def Initialize_debugger_def emit_def Let_def cout_lines_append
           split: option.splits)

lemma Initialize_null_scene:
  assumes "PxCreateFoundation k = Some fnd" and "PxCreatePhysics k = Some ph"
    and "PxCreateCooking k = Some ck" and "createScene k = None"
  shows "Initialize False k NumThreads g s = Inl NullDereference"
  using assms
  by (simp add: Initialize_def Initialize_debugger_def emit_def Let_def)

text \<open>
  C4. \<open>Initialize\<close> (built without \<open>_DEBUG\<close>) when the foundation, the physics context,
  the cooker and the scene are created: it returns \<open>true\<close> and writes nothing, whatever
  \<open>PxCreateControllerManager\<close> and \<open>createMaterial\<close> returned; a null result of either
  is stored as it is.
\<close>

theorem Initialize_unchecked_results:
  assumes "PxCreateFoundation k = Some fnd" and "PxCreatePhysics k = Some ph"
    and "PxCreateCooking k = Some ck" and "createScene k = Some sc"
  shows "\<exists>s'. Initialize False k NumThreads g s = Inr (True, s')
           \<and> CharacterManager s' = PxCreateControllerManager k
           \<and> DefaultMaterial s' = createMaterial k
           \<and> cout_lines (trace s') = cout_lines (trace s)"
  using assms
  by (simp add: Initialize_def Initialize_debugger_def Initialize_scene_debugger_def
        emit_def Let_def cout_lines_append)

theorem Initialize_unchecked_results_witness:
  "\<exists>s'. Initialize False
           (sdk_ok\<lparr>PxCreateControllerManager := None, createMaterial := None\<rparr>)
           2 (PxVec3 (Finite 0) (round32 (- 9.81)) (Finite 0)) engine0 = Inr (True, s')
        \<and> CharacterManager s' = None \<and> DefaultMaterial s' = None
        \<and> cout_lines (trace s') = []"
  using Initialize_unchecked_results
          [of "sdk_ok\<lparr>PxCreateControllerManager := None, createMaterial := None\<rparr>"
              1 2 3 4 2 "PxVec3 (Finite 0) (round32 (- 9.81)) (Finite 0)" engine0]
  by (simp add: sdk_ok_def engine0_def)

text \<open>The result that \<open>CreateTerrain\<close> checks: without an actor it returns \<open>false\<close>
  and adds nothing to the scene.\<close>

lemma CreateTerrain_actor_failure:
  assumes "CreateTerrain k Position Scale SizeX SizeY MinZ MaxZ Heightmap s = Inr (b, s')"
    and "PxCreateStatic k = None"
  shows "b = False \<and> added_actors (trace s') = added_actors (trace s)"
  using assms
  by (auto simp: CreateTerrain_def emit_def Let_def added_actors_append
           split: sum.splits option.splits)

text \<open>
  C8. \<open>CreateTerrain\<close> when the cooker returns no height field and \<open>PxCreateStatic\<close>
  returns an actor: the null height field goes into the geometry, the actor is added to
  the scene, nothing is written and the result is \<open>true\<close>.
\<close>

theorem CreateTerrain_unchecked_cooking:
  assumes "CreateTerrain_samples SizeX SizeY MinZ MaxZ Heightmap = Inr px_data"
    and "Cooker s = Some ck" and "Physics s = Some ph" and "DefaultMaterial s = Some mat"
    and "GlobalScene s = Some sc"
    and "createHeightField k = None" and "PxCreateStatic k = Some actor"
  shows "\<exists>s'. CreateTerrain k Position Scale SizeX SizeY MinZ MaxZ Heightmap s = Inr (True, s')
           \<and> added_actors (trace s') = added_actors (trace s) @ [actor]
           \<and> cout_lines (trace s') = cout_lines (trace s)"
  using assms
  by (simp add: CreateTerrain_def emit_def Let_def added_actors_append cout_lines_append)

theorem CreateTerrain_unchecked_cooking_witness:
  "\<exists>s'. CreateTerrain (sdk_ok\<lparr>createHeightField := None\<rparr>)
           (PxVec3 (Finite 0) (Finite 0) (Finite 0)) (PxVec3 (Finite 1) (Finite 1) (Finite 1))
           1 1 (Finite 0) (Finite 1) [Finite (1 / 2)] engine0 = Inr (True, s')
        \<and> added_actors (trace s') = [13] \<and> cout_lines (trace s') = []"
proof -
  have smp: "CreateTerrain_samples 1 1 (Finite 0) (Finite 1) [Finite (1 / 2)]
               = Inr [\<lparr>height = 0, materialIndex0 = 0, materialIndex1 = 0\<rparr>]"
    by (simp add: CreateTerrain_samples_def CreateTerrain_y_loop.simps CreateTerrain_x_loop.simps
          fp_sub_def trunc_toward_zero_def round32_def fp_round_def binade.simps
          round_half_even_def Let_def)
  from CreateTerrain_unchecked_cooking
         [OF smp, of engine0 3 2 6 4 "sdk_ok\<lparr>createHeightField := None\<rparr>" 13
             "PxVec3 (Finite 0) (Finite 0) (Finite 0)" "PxVec3 (Finite 1) (Finite 1) (Finite 1)"]
  show ?thesis
    by (simp add: sdk_ok_def engine0_def)
qed

subsection \<open>The tables only grow\<close>

text \<open>No operation removes or moves an entry of a table.\<close>

lemma Initialize_tables_case:
  "(case Initialize debug k NumThreads g s of Inl f \<Rightarrow> True
    | Inr (b, s') \<Rightarrow> Characters s' = Characters s \<and> TriangleMeshes s' = TriangleMeshes s)"
  by (simp add: Initialize_def Initialize_debugger_def Initialize_scene_debugger_def emit_def Let_def
           split: option.split)

lemma Simulate_tables_case:
  "(case Simulate e s of Inl f \<Rightarrow> True
    | Inr s' \<Rightarrow> Characters s' = Characters s \<and> TriangleMeshes s' = TriangleMeshes s)"
  by (simp add: Simulate_def emit_def split: option.split)

lemma SimulateFixedFrequency_tables_case:
  "(case SimulateFixedFrequency now f cb s of Inl e \<Rightarrow> True
    | Inr s' \<Rightarrow> Characters s' = Characters s \<and> TriangleMeshes s' = TriangleMeshes s)"
  by (simp add: SimulateFixedFrequency_def Simulate_def emit_def Let_def split: option.split)

lemma CreatePhysicsTriangleMesh_tables_case:
  "(case CreatePhysicsTriangleMesh k vs ixs s of Inl e \<Rightarrow> True
    | Inr (h, s') \<Rightarrow> Characters s' = Characters s \<and> (\<exists>ms. TriangleMeshes s' = TriangleMeshes s @ ms))"
  by (simp add: CreatePhysicsTriangleMesh_def emit_def Let_def split: option.split)

lemma CreateStaticActor_tables_case:
  "(case CreateStaticActor k MeshID p r sc s of Inl e \<Rightarrow> True
    | Inr (b, s') \<Rightarrow> Characters s' = Characters s \<and> TriangleMeshes s' = TriangleMeshes s)"
  by (simp add: CreateStaticActor_def emit_def Let_def split: option.split)

lemma CreateTerrain_tables_case:
  "(case CreateTerrain k p sc SizeX SizeY MinZ MaxZ hm s of Inl e \<Rightarrow> True
    | Inr (b, s') \<Rightarrow> Characters s' = Characters s \<and> TriangleMeshes s' = TriangleMeshes s)"
  by (simp add: CreateTerrain_def emit_def Let_def split: option.split sum.split)

lemma CreateCharacterController_tables_case:
  "(case CreateCharacterController k p h r s of Inl e \<Rightarrow> True
    | Inr (ID, s') \<Rightarrow> (\<exists>cs. Characters s' = Characters s @ cs) \<and> TriangleMeshes s' = TriangleMeshes s)"
  by (simp add: CreateCharacterController_def emit_def Let_def split: option.split)

lemma GetCharacter_tables_case:
  "(case GetCharacter ID s of Inl e \<Rightarrow> True
    | Inr (c, s') \<Rightarrow> Characters s' = Characters s \<and> TriangleMeshes s' = TriangleMeshes s)"
  by (simp add: GetCharacter_def emit_def)

lemma MoveCharacter_tables_case:
  "(case MoveCharacter k ID d e g s of Inl e \<Rightarrow> True
    | Inr (fl, s') \<Rightarrow> Characters s' = Characters s \<and> TriangleMeshes s' = TriangleMeshes s)"
  by (simp add: MoveCharacter_def GetCharacter_def emit_def Let_def split: option.split)

lemma perform_tables:
  assumes "perform debug now op s = Inr s'"
  shows "(\<exists>cs. Characters s' = Characters s @ cs) \<and> (\<exists>ms. TriangleMeshes s' = TriangleMeshes s @ ms)"
proof (cases op)
  case (Op_Initialize k n g)
  with assms Initialize_tables_case [where debug = debug and k = k and NumThreads = n and g = g and s = s] show ?thesis
    by (cases "Initialize debug k n g s") auto
next
  case (Op_Simulate e)
  with assms Simulate_tables_case [where e = e and s = s] show ?thesis
    by simp
next
  case (Op_SimulateFixedFrequency f cb)
  with assms SimulateFixedFrequency_tables_case [where now = now and f = f and cb = cb and s = s] show ?thesis
    by simp
next
  case (Op_CreatePhysicsTriangleMesh k vs ixs)
  with assms CreatePhysicsTriangleMesh_tables_case [where k = k and vs = vs and ixs = ixs and s = s] show ?thesis
    by (cases "CreatePhysicsTriangleMesh k vs ixs s") auto
next
  case (Op_CreateStaticActor k MeshID p r sc)
  with assms CreateStaticActor_tables_case [where k = k and MeshID = MeshID and p = p and r = r and sc = sc and s = s] show ?thesis
    by (cases "CreateStaticActor k MeshID p r sc s") auto
next
  case (Op_CreateTerrain k p sc SizeX SizeY MinZ MaxZ hm)
  with assms CreateTerrain_tables_case [where k = k and p = p and sc = sc and SizeX = SizeX and SizeY = SizeY and MinZ = MinZ and MaxZ = MaxZ and hm = hm and s = s] show ?thesis
    by (cases "CreateTerrain k p sc SizeX SizeY MinZ MaxZ hm s") auto
next
  case (Op_CreateCharacterController k p h r)
  with assms CreateCharacterController_tables_case [where k = k and p = p and h = h and r = r and s = s] show ?thesis
    by (cases "CreateCharacterController k p h r s") auto
next
  case (Op_GetCharacter ID)
  with assms GetCharacter_tables_case [where ID = ID and s = s] show ?thesis
    by (cases "GetCharacter ID s") auto
next
  case (Op_MoveCharacter k ID d e g)
  with assms MoveCharacter_tables_case [where k = k and ID = ID and d = d and e = e and g = g and s = s] show ?thesis
    by (cases "MoveCharacter k ID d e g s") auto
qed

lemma perform_all_tables:
  "perform_all debug now ops s = Inr s'
   \<Longrightarrow> (\<exists>cs. Characters s' = Characters s @ cs) \<and> (\<exists>ms. TriangleMeshes s' = TriangleMeshes s @ ms)"
proof (induction ops arbitrary: s)
  case Nil
  then show ?case by simp
next
  case (Cons op ops)
  from Cons.prems obtain s1 where p: "perform debug now op s = Inr s1"
    and r: "perform_all debug now ops s1 = Inr s'"
    by (auto split: sum.splits)
  from perform_tables [OF p] Cons.IH [OF r] show ?case
    by auto
qed


lemma CreateCharacterController_success:
  assumes "CreateCharacterController k p h r s = Inr (ID, s1)" and "ID \<noteq> - 1"
    and "length (Characters s) < 2 ^ 64 - 1"
  shows "createController k \<noteq> None \<and> unat ID = length (Characters s)
         \<and> Characters s1 = Characters s @ [createController k]"
  using assms(1,2) handle_after_push [OF assms(3)]
  by (auto simp: CreateCharacterController_def emit_def Let_def split: option.splits)

lemma CreatePhysicsTriangleMesh_success:
  assumes "CreatePhysicsTriangleMesh k vs ixs s = Inr (MeshID, s1)" and "MeshID \<noteq> - 1"
    and "length (TriangleMeshes s) < 2 ^ 64 - 1"
  shows "createTriangleMesh k \<noteq> None \<and> unat MeshID = length (TriangleMeshes s)
         \<and> TriangleMeshes s1 = TriangleMeshes s @ [createTriangleMesh k]"
  using assms(1,2) handle_after_push [OF assms(3)]
  by (auto simp: CreatePhysicsTriangleMesh_def emit_def Let_def split: option.splits if_splits)

text \<open>
  C7. A handle returned by a successful creation stays valid for as long as the engine
  lives: whatever operations are run afterwards, the handle of a controller makes
  \<open>GetCharacter\<close> return that controller, the handle of a mesh still indexes that mesh,
  and both tables only grow at the end. (The tables hold fewer than \<open>2^64 - 1\<close> entries
  when the resource is created.)
\<close>

theorem handles_remain_valid:
  assumes run: "perform_all debug now ops s1 = Inr s2"
    and chars: "length (Characters s) < 2 ^ 64 - 1"
    and meshes: "length (TriangleMeshes s) < 2 ^ 64 - 1"
  shows "(CreateCharacterController k p h r s = Inr (ID, s1) \<and> ID \<noteq> - 1 \<longrightarrow>
            createController k \<noteq> None \<and> GetCharacter ID s2 = Inr (createController k, s2))
       \<and> (CreatePhysicsTriangleMesh k' vs ixs s = Inr (MeshID, s1) \<and> MeshID \<noteq> - 1 \<longrightarrow>
            createTriangleMesh k' \<noteq> None \<and> unat MeshID < length (TriangleMeshes s2)
            \<and> TriangleMeshes s2 ! unat MeshID = createTriangleMesh k')
       \<and> (\<exists>cs. Characters s2 = Characters s1 @ cs)
       \<and> (\<exists>ms. TriangleMeshes s2 = TriangleMeshes s1 @ ms)"
proof -
  from perform_all_tables [OF run] obtain cs ms
    where cs: "Characters s2 = Characters s1 @ cs"
      and ms: "TriangleMeshes s2 = TriangleMeshes s1 @ ms"
    by auto
  have controller: "createController k \<noteq> None \<and> GetCharacter ID s2 = Inr (createController k, s2)"
    if c: "CreateCharacterController k p h r s = Inr (ID, s1)" and ok: "ID \<noteq> - 1"
  proof -
    from CreateCharacterController_success [OF c ok chars]
    have some: "createController k \<noteq> None" and idx: "unat ID = length (Characters s)"
      and tab: "Characters s1 = Characters s @ [createController k]"
      by simp_all
    have in_range: "unat ID < length (Characters s2)"
      using idx tab cs by simp
    have "Characters s2 ! unat ID = createController k"
      using idx tab cs by (simp add: nth_append)
    with GetCharacter_in_range [OF in_range] some show ?thesis
      by simp
  qed
  have mesh: "createTriangleMesh k' \<noteq> None \<and> unat MeshID < length (TriangleMeshes s2)
              \<and> TriangleMeshes s2 ! unat MeshID = createTriangleMesh k'"
    if c: "CreatePhysicsTriangleMesh k' vs ixs s = Inr (MeshID, s1)" and ok: "MeshID \<noteq> - 1"
  proof -
    from CreatePhysicsTriangleMesh_success [OF c ok meshes]
    have some: "createTriangleMesh k' \<noteq> None" and idx: "unat MeshID = length (TriangleMeshes s)"
      and tab: "TriangleMeshes s1 = TriangleMeshes s @ [createTriangleMesh k']"
      by simp_all
    show ?thesis
      using some idx tab ms by (simp add: nth_append)
  qed
  from controller mesh cs ms show ?thesis
    by blast
qed

theorem handles_remain_valid_witness:
  "\<exists>ID s1 s2.
     CreateCharacterController sdk_ok (PxVec3 (Finite 0) (Finite 0) (Finite 0)) (Finite 125)
       (Finite 20) engine0 = Inr (ID, s1) \<and> ID \<noteq> - 1
     \<and> perform_all False (\<lambda>n. int n) lifetime_example s1 = Inr s2
     \<and> GetCharacter ID s2 = Inr (Some 14, s2)
     \<and> Characters s2 = [Some 14, Some 15]"
proof -
  obtain ID s1
    where c: "CreateCharacterController sdk_ok (PxVec3 (Finite 0) (Finite 0) (Finite 0))
                (Finite 125) (Finite 20) engine0 = Inr (ID, s1)"
    and ok: "ID \<noteq> - 1"
    and s1: "s1 = (emit (Called_createController 7
                           (controller_desc (PxVec3 (Finite 0) (Finite 0) (Finite 0))
                              (Finite 125) (Finite 20) (Some 6))) engine0)
                    \<lparr>Characters := [Some 14]\<rparr>"
    by (simp add: CreateCharacterController_def engine0_def sdk_ok_def Let_def emit_def)
  obtain s2 where run: "perform_all False (\<lambda>n. int n) lifetime_example s1 = Inr s2"
    and tab: "Characters s2 = [Some 14, Some 15]"
    unfolding s1
    by (simp add: lifetime_example_def CreatePhysicsTriangleMesh_def CreateStaticActor_def
          CreateCharacterController_def SimulateFixedFrequency_def Simulate_def MoveCharacter_def
          GetCharacter_def duration_deca_def engine0_def sdk_ok_def Let_def emit_def
          round32_def fp_round_def binade.simps round_half_even_def)
  have pre: "length (Characters engine0) < 2 ^ 64 - 1" "length (TriangleMeshes engine0) < 2 ^ 64 - 1"
    by (simp_all add: engine0_def)
  from handles_remain_valid
         [OF run pre, of sdk_ok "PxVec3 (Finite 0) (Finite 0) (Finite 0)" "Finite 125" "Finite 20" ID sdk_ok "[] :: PxVec3 list"
            "[] :: uint32_t list" 0]
       c ok run tab
  show ?thesis
    by (simp add: sdk_ok_def)
qed

subsection \<open>Height-map conversion\<close>

text \<open>
  C3. A height-map of two columns and one row, both entries 1, with \<open>MinZ = 0\<close> and
  \<open>MaxZ = 10\<close>. The first turn of the inner loop reads \<open>Heightmap[0]\<close>; in the second,
  \<open>x = 1\<close> and \<open>in_idx = 1 * sizeof(float) + 0 * 2 = 4\<close>, so the read \<open>Heightmap[4]\<close> is
  outside the two entries of the map. No sample buffer with the height 10 in every
  sample is produced, by the loops or by \<open>CreateTerrain\<close>.
\<close>

theorem CreateTerrain_samples_second_column:
  "CreateTerrain_samples 2 1 (Finite 0) (Finite 10) [Finite 1, Finite 1] = Inl OutOfBoundsAccess
   \<and> CreateTerrain sdk_ok (PxVec3 (Finite 0) (Finite 0) (Finite 0))
         (PxVec3 (Finite 1) (Finite 1) (Finite 1)) 2 1 (Finite 0) (Finite 10)
         [Finite 1, Finite 1] engine0 = Inl OutOfBoundsAccess"
proof -
  have "replicate (length [Finite 1, Finite 1 :: float])
          \<lparr>height = 0, materialIndex0 = 0, materialIndex1 = 0\<rparr> =
        [\<lparr>height = 0, materialIndex0 = 0, materialIndex1 = 0\<rparr>,
         \<lparr>height = 0, materialIndex0 = 0, materialIndex1 = 0\<rparr>]"
    by (simp add: numeral_2_eq_2)
  then have "CreateTerrain_samples 2 1 (Finite 0) (Finite 10) [Finite 1, Finite 1] =
               Inl OutOfBoundsAccess"
    unfolding CreateTerrain_samples_def
    by (simp add: CreateTerrain_y_loop.simps CreateTerrain_x_loop.simps fp_sub_def
          trunc_toward_zero_def round32_def fp_round_def binade.simps round_half_even_def Let_def)
  then show ?thesis
    by (simp add: CreateTerrain_def)
qed

lemma unat_succ_below:
  fixes x :: uint32_t
  assumes "x < b"
  shows "unat (x + 1) = Suc (unat x)"
proof -
  have "x + 1 \<noteq> 0"
    using assms by (metis add.commute neg_eq_iff_add_eq_0 word_order.extremum_strict)
  then show ?thesis
    by (simp add: add.commute unatSuc)
qed

text \<open>One turn of each loop that is followed by a result: the read of the height-map
  is inside the map, and the rest of the loop has a result too.\<close>

lemma x_loop_turn:
  assumes "CreateTerrain_x_loop x y SizeX SizeY MinZ MaxZ Heightmap buf = Inr buf'"
    and "x < SizeX"
  shows "unat (ucast ((ucast x :: size_t) * 4 + ucast (y * SizeX)) :: uint32_t) < length Heightmap
       \<and> (\<exists>buf1. CreateTerrain_x_loop (x + 1) y SizeX SizeY MinZ MaxZ Heightmap buf1 = Inr buf')"
proof -
  have eq: "CreateTerrain_x_loop x y SizeX SizeY MinZ MaxZ Heightmap buf = Inr buf'"
    by (rule assms(1))
  show ?thesis
    using eq assms(2)
    apply (subst (asm) CreateTerrain_x_loop.simps)
    apply (simp add: Let_def split: if_splits sum.splits)
    apply blast
    done
qed

lemma y_loop_turn:
  assumes "CreateTerrain_y_loop y SizeX SizeY MinZ MaxZ Heightmap buf = Inr buf'"
    and "y < SizeY"
  shows "\<exists>buf1. CreateTerrain_x_loop 0 y SizeX SizeY MinZ MaxZ Heightmap buf = Inr buf1
           \<and> CreateTerrain_y_loop (y + 1) SizeX SizeY MinZ MaxZ Heightmap buf1 = Inr buf'"
  using assms
  by (subst (asm) CreateTerrain_y_loop.simps) (simp split: sum.splits)

text \<open>So a loop that has a result has made every read of its remaining turns inside
  the map.\<close>

lemma x_loop_reads:
  assumes "CreateTerrain_x_loop x y SizeX SizeY MinZ MaxZ Heightmap buf = Inr buf'"
    and "x \<le> x'" and "x' < SizeX"
  shows "unat (ucast ((ucast x' :: size_t) * 4 + ucast (y * SizeX)) :: uint32_t) < length Heightmap"
  using assms
proof (induction "unat x' - unat x" arbitrary: x buf rule: less_induct)
  case less
  have lt: "x < SizeX"
    using less.prems(2) less.prems(3) by simp
  note turn = x_loop_turn [OF less.prems(1) lt]
  show ?case
  proof (cases "x = x'")
    case True
    then show ?thesis
      using turn by simp
  next
    case False
    then have xlt: "x < x'"
      using less.prems(2) by simp
    from turn obtain buf1
      where next_turn: "CreateTerrain_x_loop (x + 1) y SizeX SizeY MinZ MaxZ Heightmap buf1 = Inr buf'"
      by blast
    have suc: "unat (x + 1) = Suc (unat x)"
      using xlt by (rule unat_succ_below)
    have "unat x < unat x'"
      using xlt by (simp add: word_less_nat_alt)
    then have le: "x + 1 \<le> x'" and smaller: "unat x' - unat (x + 1) < unat x' - unat x"
      using suc by (simp_all add: word_le_nat_alt)
    show ?thesis
      by (rule less.hyps [OF smaller next_turn le less.prems(3)])
  qed
qed

lemma y_loop_rows:
  assumes "CreateTerrain_y_loop y SizeX SizeY MinZ MaxZ Heightmap buf = Inr buf'"
    and "y \<le> y'" and "y' < SizeY"
  shows "\<exists>buf1 buf2. CreateTerrain_x_loop 0 y' SizeX SizeY MinZ MaxZ Heightmap buf1 = Inr buf2"
  using assms
proof (induction "unat y' - unat y" arbitrary: y buf rule: less_induct)
  case less
  have lt: "y < SizeY"
    using less.prems(2) less.prems(3) by simp
  note turn = y_loop_turn [OF less.prems(1) lt]
  show ?case
  proof (cases "y = y'")
    case True
    then show ?thesis
      using turn by blast
  next
    case False
    then have ylt: "y < y'"
      using less.prems(2) by simp
    from turn obtain buf1
      where next_turn: "CreateTerrain_y_loop (y + 1) SizeX SizeY MinZ MaxZ Heightmap buf1 = Inr buf'"
      by blast
    have suc: "unat (y + 1) = Suc (unat y)"
      using ylt by (rule unat_succ_below)
    have "unat y < unat y'"
      using ylt by (simp add: word_less_nat_alt)
    then have le: "y + 1 \<le> y'" and smaller: "unat y' - unat (y + 1) < unat y' - unat y"
      using suc by (simp_all add: word_le_nat_alt)
    show ?thesis
      by (rule less.hyps [OF smaller next_turn le less.prems(3)])
  qed
qed

text \<open>The index of the read of the last cell, \<open>x = SizeX - 1\<close> and \<open>y = SizeY - 1\<close>,
  when no product wraps around: it is \<open>SizeX * SizeY + 3 * SizeX - 4\<close>.\<close>

lemma last_cell_index:
  fixes SizeX SizeY :: uint32_t
  assumes "2 \<le> unat SizeX" and "1 \<le> unat SizeY"
    and "unat SizeX * unat SizeY + 3 * unat SizeX < 2 ^ 32"
  shows "unat (ucast ((ucast (SizeX - 1) :: size_t) * 4 + ucast ((SizeY - 1) * SizeX)) :: uint32_t)
           = unat SizeX * unat SizeY + 3 * unat SizeX - 4"
proof -
  have x0: "SizeX \<noteq> 0" and y0: "SizeY \<noteq> 0"
    using assms(1) assms(2) by auto
  have x1: "unat (SizeX - 1) = unat SizeX - 1"
    using x0 by (rule unat_minus_one)
  have y1: "unat (SizeY - 1) = unat SizeY - 1"
    using y0 by (rule unat_minus_one)
  have "(unat SizeY - 1) * unat SizeX \<le> unat SizeY * unat SizeX"
    by (rule mult_le_mono1) simp
  then have "(unat SizeY - 1) * unat SizeX \<le> unat SizeX * unat SizeY"
    by (simp add: mult.commute)
  then have small: "(unat SizeY - 1) * unat SizeX < 2 ^ 32"
    using assms(3) by linarith
  have prod: "unat ((SizeY - 1) * SizeX) = (unat SizeY - 1) * unat SizeX"
    using small by (simp add: unat_word_ariths y1)
  have up: "unat (ucast ((SizeY - 1) * SizeX) :: size_t) = (unat SizeY - 1) * unat SizeX"
    using small prod by (simp add: unsigned_ucast_eq take_bit_nat_eq_self)
  have "unat SizeX < 2 ^ 32"
    using assms(3) by linarith
  then have "unat SizeX - 1 < (2 :: nat) ^ 64"
    by simp
  then have upx: "unat (ucast (SizeX - 1) :: size_t) = unat SizeX - 1"
    using x1 by (simp add: unsigned_ucast_eq take_bit_nat_eq_self)
  have four: "unat ((ucast (SizeX - 1) :: size_t) * 4) = 4 * (unat SizeX - 1)"
  proof -
    have "unat SizeX < 2 ^ 32"
      using assms(3) by linarith
    then have "(unat SizeX - 1) * 4 < (2 :: nat) ^ 64"
      by simp
    then show ?thesis
      by (simp add: unat_word_ariths upx)
  qed
  have total: "4 * (unat SizeX - 1) + (unat SizeY - 1) * unat SizeX =
                 unat SizeX * unat SizeY + 3 * unat SizeX - 4"
    using assms(1) assms(2) by (cases "unat SizeY") (simp_all add: algebra_simps)
  have lt32: "4 * (unat SizeX - 1) + (unat SizeY - 1) * unat SizeX < 2 ^ 32"
    using total assms(3) by linarith
  then have lt64: "4 * (unat SizeX - 1) + (unat SizeY - 1) * unat SizeX < 2 ^ 64"
    by simp
  have sum: "unat ((ucast (SizeX - 1) :: size_t) * 4 + ucast ((SizeY - 1) * SizeX))
               = 4 * (unat SizeX - 1) + (unat SizeY - 1) * unat SizeX"
    using lt64 by (simp add: unat_word_ariths(1) four up)
  have "unat (ucast ((ucast (SizeX - 1) :: size_t) * 4 + ucast ((SizeY - 1) * SizeX)) :: uint32_t)
          = 4 * (unat SizeX - 1) + (unat SizeY - 1) * unat SizeX"
    using lt32 sum by (simp add: unsigned_ucast_eq take_bit_nat_eq_self)
  then show ?thesis
    using total by simp
qed

text \<open>
  With two columns or more, and a height-map of \<open>SizeX * SizeY\<close> entries, that index is
  outside the map: the loops never run to their end, whatever the entries are. They
  stop at an undefined read, or before it at a height that does not fit 16 bits.
\<close>

lemma CreateTerrain_samples_columns:
  assumes "2 \<le> unat SizeX" and "1 \<le> unat SizeY"
    and "length Heightmap = unat SizeX * unat SizeY"
    and "unat SizeX * unat SizeY + 3 * unat SizeX < 2 ^ 32"
  shows "\<exists>f. CreateTerrain_samples SizeX SizeY MinZ MaxZ Heightmap = Inl f"
proof (cases "CreateTerrain_samples SizeX SizeY MinZ MaxZ Heightmap")
  case (Inl f)
  then show ?thesis
    by blast
next
  case (Inr buf')
  have x0: "SizeX \<noteq> 0" and y0: "SizeY \<noteq> 0"
    using assms(1) assms(2) by auto
  have ylast: "SizeY - 1 < SizeY"
    using measure_unat [OF y0] by (simp add: word_less_nat_alt)
  have xlast: "SizeX - 1 < SizeX"
    using measure_unat [OF x0] by (simp add: word_less_nat_alt)
  from Inr obtain buf1 buf2
    where row: "CreateTerrain_x_loop 0 (SizeY - 1) SizeX SizeY MinZ MaxZ Heightmap buf1 = Inr buf2"
    unfolding CreateTerrain_samples_def
    using y_loop_rows [where y = 0 and y' = "SizeY - 1"] ylast by (metis word_le_0_iff word_coorder.extremum)
  have "unat (ucast ((ucast (SizeX - 1) :: size_t) * 4 + ucast ((SizeY - 1) * SizeX)) :: uint32_t)
          < length Heightmap"
    by (rule x_loop_reads [OF row _ xlast]) simp
  then show ?thesis
    using last_cell_index [OF assms(1) assms(2) assms(4)] assms(1) assms(3) by simp
qed

text \<open>
  A map of one column is read inside its bounds. The value is computed in \<open>float\<close> and
  the sample keeps its integer part: \<open>MinZ = -4.9f\<close>, \<open>MaxZ = 4\<close> and the entry 1 give
  \<open>8.9f * 1 + -4.9f\<close>, the float \<open>8388607 / 2^21\<close> just below 4, and the height 3.
\<close>

lemma CreateTerrain_samples_one_cell:
  "round32 (- 4.9) = Finite (- 10276045 / 2097152)
   \<and> CreateTerrain_samples 1 1 (Finite (- 10276045 / 2097152)) (Finite 4) [Finite 1] =
       Inr [\<lparr>height = 3, materialIndex0 = 0, materialIndex1 = 0\<rparr>]"
proof -
  have "replicate (length [Finite 1 :: float])
          \<lparr>height = 0, materialIndex0 = 0, materialIndex1 = 0\<rparr> =
        [\<lparr>height = 0, materialIndex0 = 0, materialIndex1 = 0\<rparr>]"
    by simp
  then have "CreateTerrain_samples 1 1 (Finite (- 10276045 / 2097152)) (Finite 4) [Finite 1] =
               Inr [\<lparr>height = 3, materialIndex0 = 0, materialIndex1 = 0\<rparr>]"
    unfolding CreateTerrain_samples_def
    by (simp add: CreateTerrain_y_loop.simps CreateTerrain_x_loop.simps fp_sub_def
          trunc_toward_zero_def round32_def fp_round_def binade.simps round_half_even_def Let_def)
  moreover have "round32 (- 4.9) = Finite (- 10276045 / 2097152)"
    by (simp add: round32_def fp_round_def binade.simps round_half_even_def Let_def)
  ultimately show ?thesis
    by simp
qed

subsection \<open>Fixed-step scheduler\<close>

text \<open>The step size for 60 Hz, \<open>1.0f / 60\<close>, and the float of \<open>10^10\<close>.\<close>

lemma step_size_60: "fp_div round32 (Finite 1) (Finite 60) = Finite (8947849 / 536870912)"
  by (simp add: round32_def fp_round_def binade.simps round_half_even_def Let_def)

lemma deca_period: "round32 (10 ^ 10) = Finite (10 ^ 10)"
  by (simp add: round32_def fp_round_def binade.simps round_half_even_def Let_def)

text \<open>
  C2. A scheduler for 60 Hz with a callback, called every 20 ms on a new engine. The
  first call takes the reference reading and finds that no time has passed. At the
  second call 0.02 s have passed since the reference, which is more than 1/60 s, but
  \<open>ElapsedTime\<close> is the count of periods of ten seconds, \<open>20000000.0f / 1e10f\<close>, about
  0.002, and that is below \<open>1.0f / 60\<close>: there is no step and no callback. At the third
  call 0.04 s have passed, and nothing is done either.
\<close>

theorem SimulateFixedFrequency_counts_ten_seconds:
  "1 / 60 \<le> real_of_int (clock_every 20000000 2 - clock_every 20000000 0) / 10 ^ 9
   \<and> SimulateFixedFrequency (clock_every 20000000) (Finite 60) True engine0 =
       Inr (engine0\<lparr>start_time := Some 0, clock_reads := 2\<rparr>)
   \<and> SimulateFixedFrequency (clock_every 20000000) (Finite 60) True
         (engine0\<lparr>start_time := Some 0, clock_reads := 2\<rparr>) =
       Inr (engine0\<lparr>ElapsedTime := Finite (8589935 / 4294967296), start_time := Some 0,
                    clock_reads := 3\<rparr>)
   \<and> SimulateFixedFrequency (clock_every 20000000) (Finite 60) True
         (engine0\<lparr>ElapsedTime := Finite (8589935 / 4294967296), start_time := Some 0,
                  clock_reads := 3\<rparr>) =
       Inr (engine0\<lparr>ElapsedTime := Finite (8589935 / 2147483648), start_time := Some 0,
                    clock_reads := 4\<rparr>)
   \<and> trace (engine0\<lparr>ElapsedTime := Finite (8589935 / 2147483648), start_time := Some 0,
                     clock_reads := 4\<rparr>) = []"
  by (simp add: SimulateFixedFrequency_def duration_deca_def clock_every_def engine0_def
        round32_def fp_round_def binade.simps round_half_even_def Let_def)

text \<open>
  When the scheduler steps, the time it reports is in periods of ten seconds too: with
  calls two seconds apart, the callback and \<open>Simulate\<close> of the second call get the float
  of 0.2.
\<close>

lemma SimulateFixedFrequency_reports_ten_seconds:
  "SimulateFixedFrequency (clock_every 2000000000) (Finite 60) True
     (engine0\<lparr>start_time := Some 0, clock_reads := 2\<rparr>) =
     Inr (engine0
       \<lparr>ElapsedTime := Finite (13421773 / 67108864), start_time := Some 4000000000,
        clock_reads := 4,
        trace := [Called_Callback (Finite (13421773 / 67108864)),
                  Called_simulate 4 (Finite (13421773 / 67108864)),
                  Called_fetchResults 4 True]\<rparr>)"
  by (simp add: SimulateFixedFrequency_def Simulate_def duration_deca_def clock_every_def
        emit_def engine0_def round32_def fp_round_def binade.simps round_half_even_def Let_def)

end
